theory Spec2Isabelle
  imports Main
begin

section \<open>Documents and the store\<close>

text \<open>
  The backend keeps its state in MongoDB collections reached through Mongoose models.
  An ObjectId is a natural number, a collection is the list of its documents, a timestamp
  (\<^verbatim>\<open>new Date()\<close>) is a natural number handed to the operation by its caller, and so is
  every other choice of the environment: whether the notification sink accepts a document,
  the random suffix of a certificate number. A controller is a function from the store to the
  HTTP answer and the store it leaves; a thrown error is the 500 answer of its \<^verbatim>\<open>catch\<close>.

  Enumerations that only the controllers assign (the status fields, a stored difficulty) are
  datatypes; enumerated values that arrive in a request body are strings, checked against the
  list of the route validator or of the schema. Values already in the store have passed that
  check when they were written: a save validates what the request newly supplies. The
  records carry the paths that the controllers read or write in the operations below; free
  text such as notification titles and messages is left out. The users collection is seen
  through \<^verbatim>\<open>User.findOne({ email })\<close>: it associates the address the controller passes
  with the id of the user found.
\<close>

type_synonym oid = nat

text \<open>An HTTP answer: the status code and the \<^verbatim>\<open>message\<close> of the JSON body.\<close>

type_synonym reply = "nat \<times> string"

datatype rel_status = Pending | Active | Ended | Archived | Requested_breakup

record rel_stats =
  trustLevel :: int
  lastInteraction :: nat
  totalActivities :: int
  milestonesAchieved :: int

record relationship =
  rel_id :: oid
  initiator :: oid
  partner :: oid
  rel_type :: string
  rel_status :: rel_status
  breakupRequestedBy :: "oid option"
  latestCertificate :: "oid option"
  rel_title :: string
  rel_description :: string
  startDate :: nat
  acceptedDate :: "nat option"
  endDate :: "nat option"
  stats :: rel_stats

record notification =
  recipient :: oid
  sender :: oid
  n_type :: string
  n_category :: string
  actionRequired :: bool
  actions :: "string list"
  metadata :: "(string \<times> oid) list"

datatype term_status = Proposed | Agreed | Rejected | Modified | Term_archived

record agreement =
  ag_user :: oid
  agreedAt :: nat
  signature :: string

record violation =
  reportedBy :: oid
  v_description :: string
  severity :: string
  reportedAt :: nat
  resolved :: bool

record term_doc =
  term_id :: oid
  term_relationship :: oid
  term_createdBy :: oid
  term_title :: string
  term_description :: string
  term_category :: string
  term_priority :: string
  term_status :: term_status
  agreedBy :: "agreement list"
  violations :: "violation list"

datatype milestone_status = M_pending | In_progress | Completed | Failed | M_archived

datatype difficulty = Easy | Medium | Hard | Expert

record participant =
  p_user :: oid
  p_completedAt :: nat

record evidence =
  ev_type :: "string option"
  ev_url :: string
  ev_description :: string
  uploadedBy :: oid

record rewards =
  points :: int
  certificate :: bool

record milestone =
  ms_id :: oid
  ms_relationship :: oid
  ms_title :: string
  ms_category :: string
  ms_status :: milestone_status
  completedDate :: "nat option"
  ms_rewards :: rewards
  participants :: "participant list"
  evidences :: "evidence list"
  ms_difficulty :: difficulty

record impact =
  trustChange :: "int option"
  relationshipStrength :: "int option"

record reaction =
  re_user :: oid
  re_type :: string

record comment =
  co_user :: oid
  co_text :: string

record activity =
  act_id :: oid
  act_relationship :: oid
  act_createdBy :: oid
  act_title :: string
  act_type :: string
  act_trustChange :: int
  act_relationshipStrength :: int
  reactions :: "reaction list"
  comments :: "comment list"

record certificate =
  cert_id :: oid
  relatedTo :: "string option"
  relatedId :: "oid option"
  cert_title :: string
  cert_type :: string
  level :: string
  recipients :: "oid list"
  certificateNumber :: "string option"
  isRevoked :: bool

record db =
  users :: "(string \<times> oid) list"
  relationships :: "relationship list"
  termDocs :: "term_doc list"
  milestones :: "milestone list"
  activities :: "activity list"
  certificates :: "certificate list"
  notifications :: "notification list"
  next_oid :: oid

subsection \<open>Collection primitives\<close>

text \<open>\<^verbatim>\<open>Model.findById\<close>, \<^verbatim>\<open>doc.save()\<close> on a loaded document and
  \<^verbatim>\<open>Model.findByIdAndDelete\<close>, over any collection with its id projection.\<close>

definition findById :: "('a \<Rightarrow> oid) \<Rightarrow> oid \<Rightarrow> 'a list \<Rightarrow> 'a option" where
  "findById idf i xs = find (\<lambda>x. idf x = i) xs"

definition save :: "('a \<Rightarrow> oid) \<Rightarrow> 'a \<Rightarrow> 'a list \<Rightarrow> 'a list" where
  "save idf d xs = map (\<lambda>x. if idf x = idf d then d else x) xs"

definition findByIdAndDelete :: "('a \<Rightarrow> oid) \<Rightarrow> oid \<Rightarrow> 'a list \<Rightarrow> 'a list" where
  "findByIdAndDelete idf i xs = filter (\<lambda>x. idf x \<noteq> i) xs"

text \<open>\<^verbatim>\<open>Model.findByIdAndUpdate\<close> with an update operator, applied by the store
  to the document of that id.\<close>

definition findByIdAndUpdate :: "('a \<Rightarrow> oid) \<Rightarrow> oid \<Rightarrow> ('a \<Rightarrow> 'a) \<Rightarrow> 'a list \<Rightarrow> 'a list" where
  "findByIdAndUpdate idf i f xs = map (\<lambda>x. if idf x = i then f x else x) xs"

text \<open>\<^verbatim>\<open>Notification.create\<close>: the sink decides whether the call succeeds; a failure
  is the rejected promise, \<open>None\<close>.\<close>

definition Notification_create :: "(notification \<Rightarrow> bool) \<Rightarrow> notification \<Rightarrow> db \<Rightarrow> db option" where
  "Notification_create sink n d =
     (if sink n then Some (d\<lparr>notifications := notifications d @ [n]\<rparr>) else None)"

subsection \<open>Relationship model (models/Relationship.js)\<close>

text \<open>A string is the list of its code units, all taken below 256. \<^verbatim>\<open>String.prototype.trim\<close>
  (the schema option \<^verbatim>\<open>trim: true\<close>) and the validator's \<^verbatim>\<open>trim()\<close> (the class \<^verbatim>\<open>\s\<close>)
  strip the same characters; below 256 these are TAB, LF, VT, FF, CR, SP and NBSP.\<close>

definition is_space :: "char \<Rightarrow> bool" where
  "is_space c = (c \<in> set [CHR 0x09, CHR 0x0A, CHR 0x0B, CHR 0x0C, CHR 0x0D, CHR 0x20, CHR 0xA0])"

definition trim :: "string \<Rightarrow> string" where
  "trim s = rev (dropWhile is_space (rev (dropWhile is_space s)))"

definition relationship_types :: "string list" where
  "relationship_types = [''acquaintance'', ''friend'', ''close_friend'', ''best_friend'',
     ''romantic_interest'', ''partner'', ''engaged'', ''married'', ''family'', ''mentor'', ''mentee'']"

text \<open>The validators of the relationship routes and of the schema agree on the paths a
  request supplies: \<^verbatim>\<open>title\<close> is trimmed and has 1 to 100 characters,
  \<^verbatim>\<open>description\<close> at most 500, \<^verbatim>\<open>type\<close> lies in its enum.\<close>

definition valid_title :: "string \<Rightarrow> bool" where
  "valid_title t = (1 \<le> length (trim t) \<and> length (trim t) \<le> 100)"

definition valid_relationship_type :: "string \<Rightarrow> bool" where
  "valid_relationship_type ty = (ty \<in> set relationship_types)"

definition getPartner :: "relationship \<Rightarrow> oid \<Rightarrow> oid" where
  "getPartner r userId = (if initiator r = userId then partner r else initiator r)"

definition includesUser :: "relationship \<Rightarrow> oid \<Rightarrow> bool" where
  "includesUser r userId = (initiator r = userId \<or> partner r = userId)"

text \<open>The unique index \<^verbatim>\<open>{ initiator: 1, partner: 1 }\<close>: an insert with an ordered pair
  already present is rejected by the store.\<close>

definition pair_index_free :: "relationship \<Rightarrow> relationship list \<Rightarrow> bool" where
  "pair_index_free r rs = (find (\<lambda>x. initiator x = initiator r \<and> partner x = partner r) rs = None)"

section \<open>Relationship lifecycle (relationship controller)\<close>

text \<open>The route checks \<^verbatim>\<open>partnerEmail\<close> with \<^verbatim>\<open>isEmail()\<close> and rewrites it with
  \<^verbatim>\<open>normalizeEmail()\<close>. Both belong to the validator library, which is not part of the
  repository: they are parameters of the operation.\<close>

record validator =
  isEmail :: "string \<Rightarrow> bool"
  normalizeEmail :: "string \<Rightarrow> string"

record create_relationship_body =
  partnerEmail :: string
  cr_title :: string
  cr_type :: "string option"
  cr_description :: "string option"

definition createRelationshipValidation :: "validator \<Rightarrow> create_relationship_body \<Rightarrow> bool" where
  "createRelationshipValidation V body =
     (isEmail V (partnerEmail body)
      \<and> valid_title (cr_title body)
      \<and> (case cr_type body of None \<Rightarrow> True | Some ty \<Rightarrow> valid_relationship_type ty)
      \<and> (case cr_description body of None \<Rightarrow> True | Some x \<Rightarrow> length x \<le> 500))"

definition new_relationship :: "oid \<Rightarrow> oid \<Rightarrow> oid \<Rightarrow> create_relationship_body \<Rightarrow> nat \<Rightarrow> relationship" where
  "new_relationship i me p body now =
     \<lparr>rel_id = i, initiator = me, partner = p,
      rel_type = (case cr_type body of None \<Rightarrow> ''acquaintance'' | Some ty \<Rightarrow> ty),
      rel_status = Pending, breakupRequestedBy = None, latestCertificate = None,
      rel_title = trim (cr_title body),
      rel_description = (case cr_description body of None \<Rightarrow> [] | Some x \<Rightarrow> x),
      startDate = now, acceptedDate = None, endDate = None,
      stats = \<lparr>trustLevel = 50, lastInteraction = now, totalActivities = 0, milestonesAchieved = 0\<rparr>\<rparr>"

definition existingRelationship :: "oid \<Rightarrow> oid \<Rightarrow> relationship list \<Rightarrow> relationship option" where
  "existingRelationship me p rs =
     find (\<lambda>r. (initiator r = me \<and> partner r = p) \<or> (initiator r = p \<and> partner r = me)) rs"

definition createRelationship ::
  "validator \<Rightarrow> (notification \<Rightarrow> bool) \<Rightarrow> nat \<Rightarrow> oid \<Rightarrow> create_relationship_body \<Rightarrow> db
   \<Rightarrow> reply \<times> db" where
  "createRelationship V sink now me body d =
     (if \<not> createRelationshipValidation V body then ((400, ''Validation failed''), d)
      else case map_of (users d) (normalizeEmail V (partnerEmail body)) of
        None \<Rightarrow> ((404, ''User not found with this email''), d)
      | Some p \<Rightarrow>
          if p = me then ((400, ''Cannot create relationship with yourself''), d)
          else if existingRelationship me p (relationships d) \<noteq> None
          then ((400, ''Relationship already exists''), d)
          else
            let r = new_relationship (next_oid d) me p body now
            in if \<not> pair_index_free r (relationships d)
               then ((500, ''Server error during relationship creation''), d)
               else
                 let d1 = d\<lparr>relationships := relationships d @ [r], next_oid := Suc (next_oid d)\<rparr>
                 in (case Notification_create sink
                          \<lparr>recipient = p, sender = me, n_type = ''relationship_invite'',
                           n_category = ''relationship'', actionRequired = True,
                           actions = [''accept'', ''decline''],
                           metadata = [(''relationshipId'', rel_id r)]\<rparr> d1 of
                       None \<Rightarrow> ((500, ''Server error during relationship creation''), d1)
                     | Some d2 \<Rightarrow> ((201, ''Relationship invitation sent successfully''), d2)))"

record update_relationship_body =
  ur_title :: "string option"
  ur_description :: "string option"
  ur_type :: "string option"

definition updateRelationshipValidation :: "update_relationship_body \<Rightarrow> bool" where
  "updateRelationshipValidation body =
     ((case ur_title body of None \<Rightarrow> True | Some t \<Rightarrow> valid_title t)
      \<and> (case ur_type body of None \<Rightarrow> True | Some ty \<Rightarrow> valid_relationship_type ty)
      \<and> (case ur_description body of None \<Rightarrow> True | Some x \<Rightarrow> length x \<le> 500))"

text \<open>The whitelist of \<^verbatim>\<open>updateRelationship\<close> admits title, description, type, privacy, tags
  and customFields; the three that the record carries are merged here. None of the six is
  the status or breakupRequestedBy.\<close>

definition updateRelationship :: "oid \<Rightarrow> oid \<Rightarrow> update_relationship_body \<Rightarrow> db \<Rightarrow> reply \<times> db" where
  "updateRelationship me rid body d =
     (if \<not> updateRelationshipValidation body then ((400, ''Validation failed''), d)
      else case findById rel_id rid (relationships d) of
        None \<Rightarrow> ((404, ''Relationship not found''), d)
      | Some r \<Rightarrow>
          if \<not> includesUser r me then ((403, ''Access denied''), d)
          else if rel_status r \<noteq> Active then ((400, ''Can only update active relationships''), d)
          else
            ((200, ''Relationship updated successfully''),
             d\<lparr>relationships := findByIdAndUpdate rel_id rid
                  (\<lambda>x. x\<lparr>rel_title := (case ur_title body of None \<Rightarrow> rel_title x | Some t \<Rightarrow> trim t),
                         rel_description := (case ur_description body of None \<Rightarrow> rel_description x | Some y \<Rightarrow> y),
                         rel_type := (case ur_type body of None \<Rightarrow> rel_type x | Some ty \<Rightarrow> ty)\<rparr>)
                  (relationships d)\<rparr>))"

definition acceptRelationship :: "(notification \<Rightarrow> bool) \<Rightarrow> nat \<Rightarrow> oid \<Rightarrow> oid \<Rightarrow> db \<Rightarrow> reply \<times> db" where
  "acceptRelationship sink now me rid d =
     (case findById rel_id rid (relationships d) of
        None \<Rightarrow> ((404, ''Relationship not found''), d)
      | Some r \<Rightarrow>
          if partner r \<noteq> me
          then ((403, ''Only the invited partner can accept this relationship''), d)
          else if rel_status r \<noteq> Pending then ((400, ''Relationship is not pending''), d)
          else
            let r' = r\<lparr>rel_status := Active, acceptedDate := Some now\<rparr>;
                d1 = d\<lparr>relationships := save rel_id r' (relationships d)\<rparr>
            in (case Notification_create sink
                     \<lparr>recipient = initiator r', sender = me, n_type = ''relationship_accepted'',
                      n_category = ''relationship'', actionRequired = False, actions = [],
                      metadata = [(''relationshipId'', rel_id r')]\<rparr> d1 of
                  None \<Rightarrow> ((500, ''Server error during relationship acceptance''), d1)
                | Some d2 \<Rightarrow> ((200, ''Relationship accepted successfully''), d2)))"

definition declineRelationship :: "(notification \<Rightarrow> bool) \<Rightarrow> oid \<Rightarrow> oid \<Rightarrow> db \<Rightarrow> reply \<times> db" where
  "declineRelationship sink me rid d =
     (case findById rel_id rid (relationships d) of
        None \<Rightarrow> ((404, ''Relationship not found''), d)
      | Some r \<Rightarrow>
          if partner r \<noteq> me
          then ((403, ''Only the invited partner can decline this relationship''), d)
          else if rel_status r \<noteq> Pending then ((400, ''Relationship is not pending''), d)
          else
            let d1 = d\<lparr>relationships := findByIdAndDelete rel_id rid (relationships d)\<rparr>
            in (case Notification_create sink
                     \<lparr>recipient = initiator r, sender = me, n_type = ''relationship_declined'',
                      n_category = ''relationship'', actionRequired = False, actions = [],
                      metadata = [(''relationshipId'', rel_id r)]\<rparr> d1 of
                  None \<Rightarrow> ((500, ''Server error during relationship decline''), d1)
                | Some d2 \<Rightarrow> ((200, ''Relationship declined successfully''), d2)))"

definition deleteRelationship :: "nat \<Rightarrow> oid \<Rightarrow> oid \<Rightarrow> db \<Rightarrow> reply \<times> db" where
  "deleteRelationship now me rid d =
     (case findById rel_id rid (relationships d) of
        None \<Rightarrow> ((404, ''Relationship not found''), d)
      | Some r \<Rightarrow>
          if \<not> includesUser r me then ((403, ''Access denied''), d)
          else if rel_status r = Active
          then ((200, ''Relationship archived successfully''),
                d\<lparr>relationships :=
                     save rel_id (r\<lparr>rel_status := Archived, endDate := Some now\<rparr>) (relationships d)\<rparr>)
          else ((200, ''Relationship deleted successfully''),
                d\<lparr>relationships := findByIdAndDelete rel_id rid (relationships d)\<rparr>))"

text \<open>\<^verbatim>\<open>requestBreakup\<close> and \<^verbatim>\<open>confirmBreakup\<close> answer before the notification is
  created and attach a \<^verbatim>\<open>.catch\<close> that only logs: a failing sink leaves answer and
  relationship as they are.\<close>

definition requestBreakup :: "(notification \<Rightarrow> bool) \<Rightarrow> oid \<Rightarrow> oid \<Rightarrow> db \<Rightarrow> reply \<times> db" where
  "requestBreakup sink me rid d =
     (case findById rel_id rid (relationships d) of
        None \<Rightarrow> ((404, ''Relationship not found''), d)
      | Some r \<Rightarrow>
          if \<not> includesUser r me then ((403, ''Access denied''), d)
          else if rel_status r \<noteq> Active
          then ((400, ''Can only request breakup for active relationships''), d)
          else
            let r' = r\<lparr>rel_status := Requested_breakup, breakupRequestedBy := Some me\<rparr>;
                d1 = d\<lparr>relationships := save rel_id r' (relationships d)\<rparr>
            in ((200, ''Breakup request sent successfully''),
                (case Notification_create sink
                      \<lparr>recipient = getPartner r' me, sender = me, n_type = ''breakup_request'',
                       n_category = ''relationship'', actionRequired = True,
                       actions = [''accept'', ''decline''],
                       metadata = [(''relationshipId'', rel_id r')]\<rparr> d1 of
                   None \<Rightarrow> d1
                 | Some d2 \<Rightarrow> d2)))"

definition confirmBreakup :: "(notification \<Rightarrow> bool) \<Rightarrow> nat \<Rightarrow> oid \<Rightarrow> oid \<Rightarrow> db \<Rightarrow> reply \<times> db" where
  "confirmBreakup sink now me rid d =
     (case findById rel_id rid (relationships d) of
        None \<Rightarrow> ((404, ''Relationship not found''), d)
      | Some r \<Rightarrow>
          if \<not> includesUser r me then ((403, ''Access denied''), d)
          else if rel_status r \<noteq> Requested_breakup
          then ((400, ''Relationship is not in breakup request state''), d)
          else (case breakupRequestedBy r of
                  None \<Rightarrow> ((500, ''Server error during breakup confirmation''), d)
                | Some requester \<Rightarrow>
                    if requester = me
                    then ((400, ''You cannot confirm your own breakup request''), d)
                    else
                      let r' = r\<lparr>rel_status := Ended, endDate := Some now\<rparr>;
                          d1 = d\<lparr>relationships := save rel_id r' (relationships d)\<rparr>
                      in ((200, ''Breakup confirmed successfully''),
                          (case Notification_create sink
                                \<lparr>recipient = requester, sender = me, n_type = ''breakup_confirmed'',
                                 n_category = ''relationship'', actionRequired = False, actions = [],
                                 metadata = [(''relationshipId'', rel_id r')]\<rparr> d1 of
                             None \<Rightarrow> d1
                           | Some d2 \<Rightarrow> d2))))"

definition cancelBreakupRequest :: "(notification \<Rightarrow> bool) \<Rightarrow> oid \<Rightarrow> oid \<Rightarrow> db \<Rightarrow> reply \<times> db" where
  "cancelBreakupRequest sink userId rid d =
     (case findById rel_id rid (relationships d) of
        None \<Rightarrow> ((404, ''Relationship not found''), d)
      | Some r \<Rightarrow>
          if \<not> includesUser r userId then ((403, ''Not authorized to cancel this request''), d)
          else if rel_status r \<noteq> Requested_breakup
          then ((400, ''No breakup request pending for this relationship''), d)
          else (case breakupRequestedBy r of
                  None \<Rightarrow> ((500, ''Server error during breakup request cancellation''), d)
                | Some requester \<Rightarrow>
                    if requester \<noteq> userId
                    then ((403, ''Only the initiator can cancel the breakup request''), d)
                    else
                      let r' = r\<lparr>rel_status := Active, breakupRequestedBy := None\<rparr>;
                          d1 = d\<lparr>relationships := save rel_id r' (relationships d)\<rparr>
                      in (case Notification_create sink
                               \<lparr>recipient = getPartner r' userId, sender = userId,
                                n_type = ''breakup_request_canceled'', n_category = ''relationship'',
                                actionRequired = False, actions = [],
                                metadata = [(''relationshipId'', rel_id r')]\<rparr> d1 of
                            None \<Rightarrow> ((500, ''Server error during breakup request cancellation''), d1)
                          | Some d2 \<Rightarrow>
                              ((200, ''Breakup request canceled successfully. Relationship is now active.''), d2))))"

section \<open>Dependent entities\<close>

text \<open>A controller awaits \<^verbatim>\<open>Notification.create\<close> inside its \<^verbatim>\<open>try\<close> block: a rejected
  call lands in the \<^verbatim>\<open>catch\<close>, which answers 500 and undoes nothing.\<close>

definition await_create ::
  "(notification \<Rightarrow> bool) \<Rightarrow> notification \<Rightarrow> string \<Rightarrow> db \<Rightarrow> (db \<Rightarrow> reply \<times> db) \<Rightarrow> reply \<times> db" where
  "await_create sink n err d k =
     (case Notification_create sink n d of None \<Rightarrow> ((500, err), d) | Some d' \<Rightarrow> k d')"

text \<open>Membership as the term, milestone and activity controllers test it on the populated
  relationship.\<close>

definition is_party :: "relationship \<Rightarrow> oid \<Rightarrow> bool" where
  "is_party r me = (\<not> (initiator r \<noteq> me \<and> partner r \<noteq> me))"

definition other_party :: "relationship \<Rightarrow> oid \<Rightarrow> oid" where
  "other_party r me = (if initiator r = me then partner r else initiator r)"

subsection \<open>Terms (term controller, Term model)\<close>

definition term_categories :: "string list" where
  "term_categories = [''communication'', ''boundaries'', ''expectations'', ''goals'', ''activities'',
     ''conflict_resolution'', ''commitment'', ''other'']"

definition term_priorities :: "string list" where
  "term_priorities = [''low'', ''medium'', ''high'', ''critical'']"

definition severities :: "string list" where
  "severities = [''minor'', ''moderate'', ''major'', ''severe'']"

text \<open>A creation body carries more paths than the records keep (an expiry date, a
  description, a mood, tags and so on). Whether those pass the schema when the new document is
  saved is the flag \<open>rest_valid\<close> of the body: a save that fails validation throws.\<close>

record create_term_body =
  ct_relationshipId :: oid
  ct_title :: string
  ct_description :: string
  ct_category :: string
  ct_priority :: "string option"
  ct_rest_valid :: bool

definition createTermValidation :: "create_term_body \<Rightarrow> bool" where
  "createTermValidation body =
     (valid_title (ct_title body)
      \<and> 1 \<le> length (ct_description body) \<and> length (ct_description body) \<le> 1000
      \<and> ct_category body \<in> set term_categories)"

definition createTerm ::
  "(notification \<Rightarrow> bool) \<Rightarrow> oid \<Rightarrow> create_term_body \<Rightarrow> db \<Rightarrow> reply \<times> db" where
  "createTerm sink me body d =
     (if \<not> createTermValidation body then ((400, ''Validation failed''), d)
      else case findById rel_id (ct_relationshipId body) (relationships d) of
        None \<Rightarrow> ((404, ''Relationship not found''), d)
      | Some r \<Rightarrow>
          if \<not> includesUser r me then ((403, ''Access denied''), d)
          else if rel_status r \<noteq> Active
          then ((400, ''Can only create terms for active relationships''), d)
          else
            let t = \<lparr>term_id = next_oid d, term_relationship = ct_relationshipId body,
                     term_createdBy = me, term_title = trim (ct_title body),
                     term_description = ct_description body, term_category = ct_category body,
                     term_priority = (case ct_priority body of None \<Rightarrow> ''medium'' | Some x \<Rightarrow> x),
                     term_status = Proposed, agreedBy = [], violations = []\<rparr>
            in if term_priority t \<notin> set term_priorities \<or> \<not> ct_rest_valid body
               then ((500, ''Server error during term creation''), d)
               else await_create sink
                      \<lparr>recipient = getPartner r me, sender = me, n_type = ''term_proposed'',
                       n_category = ''relationship'', actionRequired = True, actions = [''view''],
                       metadata = [(''termId'', term_id t), (''relationshipId'', ct_relationshipId body)]\<rparr>
                      ''Server error during term creation''
                      (d\<lparr>termDocs := termDocs d @ [t], next_oid := Suc (next_oid d)\<rparr>)
                      (\<lambda>d2. ((201, ''Term created successfully''), d2)))"

definition hasUserAgreed :: "term_doc \<Rightarrow> oid \<Rightarrow> bool" where
  "hasUserAgreed t userId = list_ex (\<lambda>agreement. ag_user agreement = userId) (agreedBy t)"

text \<open>The signature \<^verbatim>\<open>signature || `${firstName} ${lastName}`\<close>: the caller's full name when
  the body gives none or an empty one.\<close>

definition signature_of :: "string \<Rightarrow> string option \<Rightarrow> string" where
  "signature_of fullName sig =
     (case sig of None \<Rightarrow> fullName | Some x \<Rightarrow> if x = [] then fullName else x)"

definition agreeTerm ::
  "(notification \<Rightarrow> bool) \<Rightarrow> nat \<Rightarrow> oid \<Rightarrow> string \<Rightarrow> string option \<Rightarrow> oid \<Rightarrow> db \<Rightarrow> reply \<times> db" where
  "agreeTerm sink now me fullName sig tid d =
     (case findById term_id tid (termDocs d) of
        None \<Rightarrow> ((404, ''Term not found''), d)
      | Some t \<Rightarrow>
         (case findById rel_id (term_relationship t) (relationships d) of
            None \<Rightarrow> ((500, ''Server error during term agreement''), d)
          | Some r \<Rightarrow>
              if \<not> is_party r me then ((403, ''Access denied''), d)
              else if hasUserAgreed t me
              then ((400, ''You have already agreed to this term''), d)
              else
                let t1 = t\<lparr>agreedBy := agreedBy t @
                            [\<lparr>ag_user = me, agreedAt = now,
                              signature = signature_of fullName sig\<rparr>]\<rparr>;
                    t2 = (if length (agreedBy t1) \<ge> 2 then t1\<lparr>term_status := Agreed\<rparr> else t1)
                in await_create sink
                     \<lparr>recipient = other_party r me, sender = me, n_type = ''term_agreed'',
                      n_category = ''relationship'', actionRequired = False, actions = [],
                      metadata = [(''termId'', term_id t2), (''relationshipId'', rel_id r)]\<rparr>
                     ''Server error during term agreement''
                     (d\<lparr>termDocs := save term_id t2 (termDocs d)\<rparr>)
                     (\<lambda>d2. ((200, ''Term agreement recorded successfully''), d2))))"

definition reportViolation ::
  "(notification \<Rightarrow> bool) \<Rightarrow> nat \<Rightarrow> oid \<Rightarrow> string \<Rightarrow> string option \<Rightarrow> oid \<Rightarrow> db \<Rightarrow> reply \<times> db" where
  "reportViolation sink now me description sev tid d =
     (case findById term_id tid (termDocs d) of
        None \<Rightarrow> ((404, ''Term not found''), d)
      | Some t \<Rightarrow>
         (case findById rel_id (term_relationship t) (relationships d) of
            None \<Rightarrow> ((500, ''Server error during violation report''), d)
          | Some r \<Rightarrow>
              if \<not> is_party r me then ((403, ''Access denied''), d)
              else
                let v = \<lparr>reportedBy = me, v_description = description,
                         severity = (case sev of None \<Rightarrow> ''minor'' | Some x \<Rightarrow> x),
                         reportedAt = now, resolved = False\<rparr>;
                    t1 = t\<lparr>violations := violations t @ [v]\<rparr>
                in if severity v \<notin> set severities
                   then ((500, ''Server error during violation report''), d)
                   else await_create sink
                          \<lparr>recipient = other_party r me, sender = me, n_type = ''term_violated'',
                           n_category = ''relationship'', actionRequired = True, actions = [],
                           metadata = [(''termId'', term_id t1), (''relationshipId'', rel_id r)]\<rparr>
                          ''Server error during violation report''
                          (d\<lparr>termDocs := save term_id t1 (termDocs d)\<rparr>)
                          (\<lambda>d2. ((200, ''Violation reported successfully''), d2))))"

record update_term_body =
  ut_title :: "string option"
  ut_description :: "string option"
  ut_category :: "string option"
  ut_priority :: "string option"

text \<open>The update validators that \<^verbatim>\<open>runValidators\<close> applies to the whitelisted paths of a term
  update.\<close>

definition valid_term_update :: "update_term_body \<Rightarrow> bool" where
  "valid_term_update body =
     ((case ut_title body of None \<Rightarrow> True | Some x \<Rightarrow> valid_title x)
      \<and> (case ut_description body of None \<Rightarrow> True | Some x \<Rightarrow> 1 \<le> length x \<and> length x \<le> 1000)
      \<and> (case ut_category body of None \<Rightarrow> True | Some x \<Rightarrow> x \<in> set term_categories)
      \<and> (case ut_priority body of None \<Rightarrow> True | Some x \<Rightarrow> x \<in> set term_priorities))"

definition has_updates :: "update_term_body \<Rightarrow> bool" where
  "has_updates body =
     (ut_title body \<noteq> None \<or> ut_description body \<noteq> None \<or> ut_category body \<noteq> None
      \<or> ut_priority body \<noteq> None)"

definition apply_term_update :: "update_term_body \<Rightarrow> term_doc \<Rightarrow> term_doc" where
  "apply_term_update body x =
     (if has_updates body
      then x\<lparr>term_title := (case ut_title body of None \<Rightarrow> term_title x | Some y \<Rightarrow> trim y),
             term_description := (case ut_description body of None \<Rightarrow> term_description x | Some y \<Rightarrow> y),
             term_category := (case ut_category body of None \<Rightarrow> term_category x | Some y \<Rightarrow> y),
             term_priority := (case ut_priority body of None \<Rightarrow> term_priority x | Some y \<Rightarrow> y),
             term_status := Modified, agreedBy := []\<rparr>
      else x)"

definition updateTerm :: "oid \<Rightarrow> oid \<Rightarrow> update_term_body \<Rightarrow> db \<Rightarrow> reply \<times> db" where
  "updateTerm me tid body d =
     (case findById term_id tid (termDocs d) of
        None \<Rightarrow> ((404, ''Term not found''), d)
      | Some t \<Rightarrow>
          if term_createdBy t \<noteq> me then ((403, ''Only the creator can update this term''), d)
          else if term_status t = Agreed then ((400, ''Cannot update agreed terms''), d)
          else if \<not> valid_term_update body then ((500, ''Server error during term update''), d)
          else ((200, ''Term updated successfully''),
                d\<lparr>termDocs := findByIdAndUpdate term_id tid (apply_term_update body) (termDocs d)\<rparr>))"

definition deleteTerm :: "oid \<Rightarrow> oid \<Rightarrow> db \<Rightarrow> reply \<times> db" where
  "deleteTerm me tid d =
     (case findById term_id tid (termDocs d) of
        None \<Rightarrow> ((404, ''Term not found''), d)
      | Some t \<Rightarrow>
          if term_createdBy t \<noteq> me then ((403, ''Only the creator can delete this term''), d)
          else if term_status t = Agreed then ((400, ''Cannot delete agreed terms''), d)
          else ((200, ''Term deleted successfully''),
                d\<lparr>termDocs := findByIdAndDelete term_id tid (termDocs d)\<rparr>))"

subsection \<open>Certificates (Certificate model)\<close>

definition related_kinds :: "string list" where
  "related_kinds = [''relationship'', ''milestone'', ''user'', ''activity'', ''term'']"

definition certificate_types :: "string list" where
  "certificate_types = [''milestone'', ''anniversary'', ''achievement'', ''trust'', ''communication'',
     ''commitment'', ''growth'', ''special'', ''relationship'']"

definition certificate_levels :: "string list" where
  "certificate_levels = [''bronze'', ''silver'', ''gold'', ''platinum'', ''diamond'']"

text \<open>Schema validation of a certificate: \<^verbatim>\<open>relatedTo\<close> (in its enum), \<^verbatim>\<open>relatedId\<close>,
  \<^verbatim>\<open>title\<close> and \<^verbatim>\<open>type\<close> are required, \<^verbatim>\<open>level\<close> lies in its enum.\<close>

definition valid_certificate :: "certificate \<Rightarrow> bool" where
  "valid_certificate c =
     ((case relatedTo c of None \<Rightarrow> False | Some k \<Rightarrow> k \<in> set related_kinds)
      \<and> relatedId c \<noteq> None
      \<and> valid_title (cert_title c)
      \<and> cert_type c \<in> set certificate_types
      \<and> level c \<in> set certificate_levels)"

text \<open>\<^verbatim>\<open>Number.prototype.toString(36)\<close> on a non-negative integer and
  \<^verbatim>\<open>String.prototype.toUpperCase\<close> on ASCII.\<close>

definition digit36 :: "nat \<Rightarrow> char" where
  "digit36 k = ''0123456789abcdefghijklmnopqrstuvwxyz'' ! k"

fun toString36 :: "nat \<Rightarrow> string" where
  "toString36 n = (if n < 36 then [digit36 n] else toString36 (n div 36) @ [digit36 (n mod 36)])"

declare toString36.simps [simp del]

definition toUpperCase :: "string \<Rightarrow> string" where
  "toUpperCase s =
     map (\<lambda>c. case map_of (zip ''abcdefghijklmnopqrstuvwxyz'' ''ABCDEFGHIJKLMNOPQRSTUVWXYZ'') c of
                 None \<Rightarrow> c | Some u \<Rightarrow> u) s"

text \<open>The \<^verbatim>\<open>pre('save')\<close> hook. \<open>timestamp\<close> is \<^verbatim>\<open>Date.now()\<close> and \<open>random\<close> is
  \<^verbatim>\<open>Math.random().toString(36).substr(2, 5)\<close>, both supplied by the environment.\<close>

definition generate_certificateNumber :: "nat \<Rightarrow> string \<Rightarrow> string" where
  "generate_certificateNumber timestamp random =
     toUpperCase (''CERT-'' @ toString36 timestamp @ ''-'' @ random)"

definition pre_save :: "nat \<Rightarrow> string \<Rightarrow> certificate \<Rightarrow> certificate" where
  "pre_save timestamp random c =
     (if certificateNumber c = None \<or> certificateNumber c = Some []
      then c\<lparr>certificateNumber := Some (generate_certificateNumber timestamp random)\<rparr>
      else c)"

datatype save_error = ValidationError | DuplicateKey

text \<open>\<^verbatim>\<open>certificate.save()\<close> of a new document: validation, the hook, then the insert, which
  the unique index on \<^verbatim>\<open>metadata.certificateNumber\<close> rejects when the number is taken.\<close>

definition Certificate_save :: "nat \<Rightarrow> string \<Rightarrow> certificate \<Rightarrow> db \<Rightarrow> save_error + db" where
  "Certificate_save timestamp random c d =
     (if \<not> valid_certificate c then Inl ValidationError
      else
        let c' = pre_save timestamp random c
        in if certificateNumber c' \<in> set (map certificateNumber (certificates d))
           then Inl DuplicateKey
           else Inr (d\<lparr>certificates := certificates d @ [c']\<rparr>))"

text \<open>\<^verbatim>\<open>certificate.save()\<close> of a stored document (the download and share counters): the hook
  runs again, the index ignores the document's own entry.\<close>

definition Certificate_resave :: "nat \<Rightarrow> string \<Rightarrow> certificate \<Rightarrow> db \<Rightarrow> save_error + db" where
  "Certificate_resave timestamp random c d =
     (if \<not> valid_certificate c then Inl ValidationError
      else
        let c' = pre_save timestamp random c
        in if certificateNumber c'
                \<in> set (map certificateNumber (filter (\<lambda>x. cert_id x \<noteq> cert_id c) (certificates d)))
           then Inl DuplicateKey
           else Inr (d\<lparr>certificates := save cert_id c' (certificates d)\<rparr>))"

subsection \<open>Milestones (milestone controller, Milestone model)\<close>

definition milestone_categories :: "string list" where
  "milestone_categories = [''time_based'', ''activity_based'', ''trust_based'', ''communication'',
     ''commitment'', ''achievement'', ''celebration'', ''custom'']"

definition evidence_types :: "string list" where
  "evidence_types = [''photo'', ''video'', ''document'', ''note'', ''link'']"

definition parse_difficulty :: "string \<Rightarrow> difficulty option" where
  "parse_difficulty x =
     (if x = ''easy'' then Some Easy else if x = ''medium'' then Some Medium
      else if x = ''hard'' then Some Hard else if x = ''expert'' then Some Expert else None)"

record create_milestone_body =
  cm_relationshipId :: oid
  cm_title :: string
  cm_category :: string
  cm_rewards :: "rewards option"
  cm_difficulty :: "string option"
  cm_rest_valid :: bool

definition createMilestoneValidation :: "create_milestone_body \<Rightarrow> bool" where
  "createMilestoneValidation body =
     (valid_title (cm_title body) \<and> cm_category body \<in> set milestone_categories)"

definition createMilestone ::
  "(notification \<Rightarrow> bool) \<Rightarrow> oid \<Rightarrow> create_milestone_body \<Rightarrow> db \<Rightarrow> reply \<times> db" where
  "createMilestone sink me body d =
     (if \<not> createMilestoneValidation body then ((400, ''Validation failed''), d)
      else case findById rel_id (cm_relationshipId body) (relationships d) of
        None \<Rightarrow> ((404, ''Relationship not found''), d)
      | Some r \<Rightarrow>
          if \<not> includesUser r me then ((403, ''Access denied''), d)
          else if rel_status r \<noteq> Active
          then ((400, ''Can only create milestones for active relationships''), d)
          else
            (case parse_difficulty (case cm_difficulty body of None \<Rightarrow> ''medium'' | Some x \<Rightarrow> x) of
               None \<Rightarrow> ((500, ''Server error during milestone creation''), d)
             | Some df \<Rightarrow>
                 if \<not> cm_rest_valid body
                 then ((500, ''Server error during milestone creation''), d)
                 else
                 let m = \<lparr>ms_id = next_oid d, ms_relationship = cm_relationshipId body,
                          ms_title = trim (cm_title body), ms_category = cm_category body,
                          ms_status = M_pending, completedDate = None,
                          ms_rewards = (case cm_rewards body of
                                          None \<Rightarrow> \<lparr>points = 0, certificate = False\<rparr> | Some x \<Rightarrow> x),
                          participants = [], evidences = [], ms_difficulty = df\<rparr>
                 in await_create sink
                      \<lparr>recipient = getPartner r me, sender = me, n_type = ''milestone_created'',
                       n_category = ''milestone'', actionRequired = False, actions = [],
                       metadata = [(''milestoneId'', ms_id m),
                                   (''relationshipId'', cm_relationshipId body)]\<rparr>
                      ''Server error during milestone creation''
                      (d\<lparr>milestones := milestones d @ [m], next_oid := Suc (next_oid d)\<rparr>)
                      (\<lambda>d2. ((201, ''Milestone created successfully''), d2))))"

text \<open>\<^verbatim>\<open>milestoneSchema.methods.complete\<close>.\<close>

definition complete :: "milestone \<Rightarrow> oid \<Rightarrow> nat \<Rightarrow> milestone" where
  "complete m userId now =
     (let m1 = m\<lparr>ms_status := Completed, completedDate := Some now\<rparr>
      in if find (\<lambda>p. p_user p = userId) (participants m1) = None
         then m1\<lparr>participants := participants m1 @ [\<lparr>p_user = userId, p_completedAt = now\<rparr>]\<rparr>
         else m1)"

definition level_for :: "difficulty \<Rightarrow> string" where
  "level_for df =
     (if df = Expert then ''platinum'' else if df = Hard then ''gold''
      else if df = Medium then ''silver'' else ''bronze'')"

text \<open>The document \<^verbatim>\<open>completeMilestone\<close> hands to \<^verbatim>\<open>new Certificate\<close>. It names the
  paths \<^verbatim>\<open>relationship\<close> and \<^verbatim>\<open>milestone\<close>, which the schema does not have and a strict
  schema drops; \<^verbatim>\<open>relatedTo\<close> and \<^verbatim>\<open>relatedId\<close> stay unset.\<close>

definition milestone_certificate :: "oid \<Rightarrow> milestone \<Rightarrow> relationship \<Rightarrow> certificate" where
  "milestone_certificate i m r =
     \<lparr>cert_id = i, relatedTo = None, relatedId = None,
      cert_title = trim (ms_title m @ '' Achievement''), cert_type = ''milestone'',
      level = level_for (ms_difficulty m), recipients = [initiator r, partner r],
      certificateNumber = None, isRevoked = False\<rparr>"

definition certificate_earned :: "oid \<Rightarrow> oid \<Rightarrow> certificate \<Rightarrow> milestone \<Rightarrow> notification" where
  "certificate_earned to me c m =
     \<lparr>recipient = to, sender = me, n_type = ''certificate_earned'', n_category = ''achievement'',
      actionRequired = False, actions = [],
      metadata = [(''certificateId'', cert_id c), (''milestoneId'', ms_id m)]\<rparr>"

definition milestone_achieved :: "oid \<Rightarrow> milestone \<Rightarrow> relationship \<Rightarrow> notification" where
  "milestone_achieved me m r =
     \<lparr>recipient = other_party r me, sender = me, n_type = ''milestone_achieved'',
      n_category = ''milestone'', actionRequired = False, actions = [],
      metadata = [(''milestoneId'', ms_id m), (''relationshipId'', rel_id r)]\<rparr>"

definition inc_milestonesAchieved :: "relationship \<Rightarrow> relationship" where
  "inc_milestonesAchieved x = x\<lparr>stats := (stats x)\<lparr>milestonesAchieved := milestonesAchieved (stats x) + 1\<rparr>\<rparr>"

definition completeMilestone ::
  "(notification \<Rightarrow> bool) \<Rightarrow> nat \<Rightarrow> string \<Rightarrow> oid \<Rightarrow> oid \<Rightarrow> db \<Rightarrow> reply \<times> db" where
  "completeMilestone sink now random me mid d =
     (case findById ms_id mid (milestones d) of
        None \<Rightarrow> ((404, ''Milestone not found''), d)
      | Some m0 \<Rightarrow>
         (case findById rel_id (ms_relationship m0) (relationships d) of
            None \<Rightarrow> ((500, ''Server error during milestone completion''), d)
          | Some r \<Rightarrow>
              if \<not> is_party r me then ((403, ''Access denied''), d)
              else if ms_status m0 = Completed
              then ((400, ''Milestone is already completed''), d)
              else
                let m = complete m0 me now;
                    d1 = d\<lparr>milestones := save ms_id m (milestones d)\<rparr>;
                    d2 = d1\<lparr>relationships :=
                              findByIdAndUpdate rel_id (rel_id r) inc_milestonesAchieved (relationships d1)\<rparr>;
                    err = ''Server error during milestone completion'';
                    finish = (\<lambda>d3. await_create sink (milestone_achieved me m r) err d3
                                      (\<lambda>d4. ((200, ''Milestone completed successfully''), d4)))
                in if certificate (ms_rewards m)
                   then
                     let c = milestone_certificate (next_oid d2) m r
                     in (case Certificate_save now random c (d2\<lparr>next_oid := Suc (next_oid d2)\<rparr>) of
                           Inl e \<Rightarrow> ((500, err), d2)
                         | Inr d3 \<Rightarrow>
                             await_create sink (certificate_earned (initiator r) me c m) err d3
                               (\<lambda>d4. await_create sink (certificate_earned (partner r) me c m) err d4
                                  finish))
                   else finish d2))"

definition addEvidence ::
  "oid \<Rightarrow> string option \<Rightarrow> string \<Rightarrow> string \<Rightarrow> oid \<Rightarrow> db \<Rightarrow> reply \<times> db" where
  "addEvidence me ty url description mid d =
     (case findById ms_id mid (milestones d) of
        None \<Rightarrow> ((404, ''Milestone not found''), d)
      | Some m \<Rightarrow>
         (case findById rel_id (ms_relationship m) (relationships d) of
            None \<Rightarrow> ((500, ''Server error adding evidence''), d)
          | Some r \<Rightarrow>
              if \<not> is_party r me then ((403, ''Access denied''), d)
              else if (case ty of None \<Rightarrow> False | Some x \<Rightarrow> x \<notin> set evidence_types)
              then ((500, ''Server error adding evidence''), d)
              else
                ((200, ''Evidence added successfully''),
                 d\<lparr>milestones := save ms_id
                      (m\<lparr>evidences := evidences m @
                           [\<lparr>ev_type = ty, ev_url = url, ev_description = description, uploadedBy = me\<rparr>]\<rparr>)
                      (milestones d)\<rparr>)))"

subsection \<open>Activities (activity controller, Activity model)\<close>

definition activity_types :: "string list" where
  "activity_types = [''conversation'', ''date'', ''gift'', ''achievement'', ''conflict'', ''resolution'',
     ''milestone'', ''memory'', ''goal'', ''other'']"

definition reaction_types :: "string list" where
  "reaction_types = [''love'', ''like'', ''laugh'', ''wow'', ''sad'', ''angry'']"

record create_activity_body =
  ca_relationshipId :: oid
  ca_title :: string
  ca_type :: string
  ca_impact :: "impact option"
  ca_rest_valid :: bool

definition createActivityValidation :: "create_activity_body \<Rightarrow> bool" where
  "createActivityValidation body = (valid_title (ca_title body) \<and> ca_type body \<in> set activity_types)"

text \<open>The schema bounds both impact paths: \<^verbatim>\<open>min: -10, max: 10\<close>.\<close>

definition valid_impact_value :: "int option \<Rightarrow> bool" where
  "valid_impact_value x = (case x of None \<Rightarrow> True | Some v \<Rightarrow> - 10 \<le> v \<and> v \<le> 10)"

definition valid_impact :: "impact option \<Rightarrow> bool" where
  "valid_impact i =
     (case i of None \<Rightarrow> True
      | Some x \<Rightarrow> valid_impact_value (trustChange x) \<and> valid_impact_value (relationshipStrength x))"

text \<open>JavaScript truthiness of an optional number: neither undefined nor zero.\<close>

definition truthy :: "int option \<Rightarrow> bool" where
  "truthy x = (case x of None \<Rightarrow> False | Some v \<Rightarrow> v \<noteq> 0)"

definition count_activity :: "nat \<Rightarrow> relationship \<Rightarrow> relationship" where
  "count_activity now x =
     x\<lparr>stats := (stats x)\<lparr>totalActivities := totalActivities (stats x) + 1, lastInteraction := now\<rparr>\<rparr>"

definition set_trustLevel :: "int \<Rightarrow> relationship \<Rightarrow> relationship" where
  "set_trustLevel v x = x\<lparr>stats := (stats x)\<lparr>trustLevel := v\<rparr>\<rparr>"

definition createActivity ::
  "(notification \<Rightarrow> bool) \<Rightarrow> nat \<Rightarrow> oid \<Rightarrow> create_activity_body \<Rightarrow> db \<Rightarrow> reply \<times> db" where
  "createActivity sink now me body d =
     (if \<not> createActivityValidation body then ((400, ''Validation failed''), d)
      else case findById rel_id (ca_relationshipId body) (relationships d) of
        None \<Rightarrow> ((404, ''Relationship not found''), d)
      | Some relationship \<Rightarrow>
          if \<not> includesUser relationship me then ((403, ''Access denied''), d)
          else if rel_status relationship \<noteq> Active
          then ((400, ''Can only create activities for active relationships''), d)
          else if \<not> (valid_impact (ca_impact body) \<and> ca_rest_valid body)
          then ((500, ''Server error during activity creation''), d)
          else
            let a = \<lparr>act_id = next_oid d, act_relationship = ca_relationshipId body,
                     act_createdBy = me, act_title = trim (ca_title body), act_type = ca_type body,
                     act_trustChange =
                       (case ca_impact body of None \<Rightarrow> 0
                        | Some i \<Rightarrow> (case trustChange i of None \<Rightarrow> 0 | Some v \<Rightarrow> v)),
                     act_relationshipStrength =
                       (case ca_impact body of None \<Rightarrow> 0
                        | Some i \<Rightarrow> (case relationshipStrength i of None \<Rightarrow> 0 | Some v \<Rightarrow> v)),
                     reactions = [], comments = []\<rparr>;
                d1 = d\<lparr>activities := activities d @ [a], next_oid := Suc (next_oid d)\<rparr>;
                d2 = d1\<lparr>relationships :=
                          findByIdAndUpdate rel_id (ca_relationshipId body) (count_activity now)
                            (relationships d1)\<rparr>;
                d3 = (case ca_impact body of
                        None \<Rightarrow> d2
                      | Some i \<Rightarrow>
                          if (truthy (trustChange i) \<or> truthy (relationshipStrength i))
                             \<and> truthy (trustChange i)
                          then d2\<lparr>relationships :=
                                    findByIdAndUpdate rel_id (ca_relationshipId body)
                                      (set_trustLevel
                                         (max 0 (min 100 (trustLevel (stats relationship)
                                                          + (case trustChange i of None \<Rightarrow> 0 | Some v \<Rightarrow> v)))))
                                      (relationships d2)\<rparr>
                          else d2)
            in await_create sink
                 \<lparr>recipient = getPartner relationship me, sender = me, n_type = ''activity_added'',
                  n_category = ''activity'', actionRequired = False, actions = [],
                  metadata = [(''activityId'', act_id a), (''relationshipId'', ca_relationshipId body)]\<rparr>
                 ''Server error during activity creation'' d3
                 (\<lambda>d4. ((201, ''Activity created successfully''), d4)))"

text \<open>\<^verbatim>\<open>activitySchema.methods.addReaction\<close> and \<^verbatim>\<open>addComment\<close>.\<close>

definition Activity_addReaction :: "activity \<Rightarrow> oid \<Rightarrow> string \<Rightarrow> activity" where
  "Activity_addReaction a userId reactionType =
     a\<lparr>reactions := filter (\<lambda>r. re_user r \<noteq> userId) (reactions a)
                      @ [\<lparr>re_user = userId, re_type = reactionType\<rparr>]\<rparr>"

definition Activity_addComment :: "activity \<Rightarrow> oid \<Rightarrow> string \<Rightarrow> activity" where
  "Activity_addComment a userId text = a\<lparr>comments := comments a @ [\<lparr>co_user = userId, co_text = text\<rparr>]\<rparr>"

definition addReaction :: "oid \<Rightarrow> string option \<Rightarrow> oid \<Rightarrow> db \<Rightarrow> reply \<times> db" where
  "addReaction me ty aid d =
     (case findById act_id aid (activities d) of
        None \<Rightarrow> ((404, ''Activity not found''), d)
      | Some a \<Rightarrow>
         (case findById rel_id (act_relationship a) (relationships d) of
            None \<Rightarrow> ((500, ''Server error adding reaction''), d)
          | Some r \<Rightarrow>
              if \<not> is_party r me then ((403, ''Access denied''), d)
              else
                let a' = Activity_addReaction a me (case ty of None \<Rightarrow> ''like'' | Some x \<Rightarrow> x)
                in if (case ty of None \<Rightarrow> ''like'' | Some x \<Rightarrow> x) \<notin> set reaction_types
                   then ((500, ''Server error adding reaction''), d)
                   else ((200, ''Reaction added successfully''),
                         d\<lparr>activities := save act_id a' (activities d)\<rparr>)))"

definition addComment :: "oid \<Rightarrow> string option \<Rightarrow> oid \<Rightarrow> db \<Rightarrow> reply \<times> db" where
  "addComment me text aid d =
     (if (case text of None \<Rightarrow> True | Some x \<Rightarrow> x = [] \<or> length (trim x) = 0)
      then ((400, ''Comment text is required''), d)
      else case findById act_id aid (activities d) of
        None \<Rightarrow> ((404, ''Activity not found''), d)
      | Some a \<Rightarrow>
         (case findById rel_id (act_relationship a) (relationships d) of
            None \<Rightarrow> ((500, ''Server error adding comment''), d)
          | Some r \<Rightarrow>
              if \<not> is_party r me then ((403, ''Access denied''), d)
              else
                let a' = Activity_addComment a me (trim (case text of None \<Rightarrow> [] | Some x \<Rightarrow> x))
                in if length (trim (case text of None \<Rightarrow> [] | Some x \<Rightarrow> x)) > 500
                   then ((500, ''Server error adding comment''), d)
                   else ((200, ''Comment added successfully''),
                         d\<lparr>activities := save act_id a' (activities d)\<rparr>)))"

definition uncount_activity :: "relationship \<Rightarrow> relationship" where
  "uncount_activity x = x\<lparr>stats := (stats x)\<lparr>totalActivities := totalActivities (stats x) - 1\<rparr>\<rparr>"

definition deleteActivity :: "oid \<Rightarrow> oid \<Rightarrow> db \<Rightarrow> reply \<times> db" where
  "deleteActivity me aid d =
     (case findById act_id aid (activities d) of
        None \<Rightarrow> ((404, ''Activity not found''), d)
      | Some a \<Rightarrow>
          if act_createdBy a \<noteq> me then ((403, ''Only the creator can delete this activity''), d)
          else ((200, ''Activity deleted successfully''),
                d\<lparr>activities := findByIdAndDelete act_id aid (activities d),
                  relationships := findByIdAndUpdate rel_id (act_relationship a) uncount_activity
                                     (relationships d)\<rparr>))"

section \<open>Sequences of requests\<close>

text \<open>One request to a controller operation that writes the relationships collection or the
  terms collection, or that a property below speaks about, with everything the environment
  decides: the notification sink, the clock, the random suffix. The certificate controller is
  not among them: of a relationship it assigns \<^verbatim>\<open>latestCertificate\<close> only.\<close>

datatype request =
    CreateRelationship validator "notification \<Rightarrow> bool" nat oid create_relationship_body
  | UpdateRelationship oid oid update_relationship_body
  | AcceptRelationship "notification \<Rightarrow> bool" nat oid oid
  | DeclineRelationship "notification \<Rightarrow> bool" oid oid
  | DeleteRelationship nat oid oid
  | RequestBreakup "notification \<Rightarrow> bool" oid oid
  | ConfirmBreakup "notification \<Rightarrow> bool" nat oid oid
  | CancelBreakupRequest "notification \<Rightarrow> bool" oid oid
  | CreateTerm "notification \<Rightarrow> bool" oid create_term_body
  | UpdateTerm oid oid update_term_body
  | DeleteTerm oid oid
  | AgreeTerm "notification \<Rightarrow> bool" nat oid string "string option" oid
  | ReportViolation "notification \<Rightarrow> bool" nat oid string "string option" oid
  | CreateMilestone "notification \<Rightarrow> bool" oid create_milestone_body
  | CompleteMilestone "notification \<Rightarrow> bool" nat string oid oid
  | AddEvidence oid "string option" string string oid
  | CreateActivity "notification \<Rightarrow> bool" nat oid create_activity_body
  | AddReaction oid "string option" oid
  | AddComment oid "string option" oid
  | DeleteActivity oid oid

fun handle :: "request \<Rightarrow> db \<Rightarrow> reply \<times> db" where
  "handle (CreateRelationship V sink now me body) d = createRelationship V sink now me body d"
| "handle (UpdateRelationship me rid body) d = updateRelationship me rid body d"
| "handle (AcceptRelationship sink now me rid) d = acceptRelationship sink now me rid d"
| "handle (DeclineRelationship sink me rid) d = declineRelationship sink me rid d"
| "handle (DeleteRelationship now me rid) d = deleteRelationship now me rid d"
| "handle (RequestBreakup sink me rid) d = requestBreakup sink me rid d"
| "handle (ConfirmBreakup sink now me rid) d = confirmBreakup sink now me rid d"
| "handle (CancelBreakupRequest sink me rid) d = cancelBreakupRequest sink me rid d"
| "handle (CreateTerm sink me body) d = createTerm sink me body d"
| "handle (UpdateTerm me tid body) d = updateTerm me tid body d"
| "handle (DeleteTerm me tid) d = deleteTerm me tid d"
| "handle (AgreeTerm sink now me fullName sig tid) d = agreeTerm sink now me fullName sig tid d"
| "handle (ReportViolation sink now me description sev tid) d =
     reportViolation sink now me description sev tid d"
| "handle (CreateMilestone sink me body) d = createMilestone sink me body d"
| "handle (CompleteMilestone sink now random me mid) d = completeMilestone sink now random me mid d"
| "handle (AddEvidence me ty url description mid) d = addEvidence me ty url description mid d"
| "handle (CreateActivity sink now me body) d = createActivity sink now me body d"
| "handle (AddReaction me ty aid) d = addReaction me ty aid d"
| "handle (AddComment me text aid) d = addComment me text aid d"
| "handle (DeleteActivity me aid) d = deleteActivity me aid d"

fun serve :: "request list \<Rightarrow> db \<Rightarrow> db" where
  "serve [] d = d"
| "serve (q # qs) d = serve qs (snd (handle q d))"

definition empty_db :: "(string \<times> oid) list \<Rightarrow> db" where
  "empty_db us = \<lparr>users = us, relationships = [], termDocs = [], milestones = [], activities = [],
                  certificates = [], notifications = [], next_oid = 0\<rparr>"

section \<open>Predicates of the properties\<close>

text \<open>Two relationship documents join the same unordered pair of users.\<close>

definition same_pair :: "relationship \<Rightarrow> relationship \<Rightarrow> bool" where
  "same_pair r x =
     ((initiator r = initiator x \<and> partner r = partner x)
      \<or> (initiator r = partner x \<and> partner r = initiator x))"

fun one_per_pair :: "relationship list \<Rightarrow> bool" where
  "one_per_pair [] = True"
| "one_per_pair (r # rs) = (list_all (\<lambda>x. \<not> same_pair r x) rs \<and> one_per_pair rs)"

text \<open>What one request may do to one relationship document: the transitions of the lifecycle,
  each keeping id and parties.\<close>

definition lifecycle_step :: "relationship \<Rightarrow> relationship \<Rightarrow> bool" where
  "lifecycle_step r r' =
     (rel_id r' = rel_id r \<and> initiator r' = initiator r \<and> partner r' = partner r
      \<and> ((rel_status r = Pending \<and> rel_status r' = Active
            \<and> breakupRequestedBy r' = breakupRequestedBy r)
         \<or> (rel_status r = Active \<and> rel_status r' = Archived
            \<and> breakupRequestedBy r' = breakupRequestedBy r)
         \<or> (rel_status r = Active \<and> rel_status r' = Requested_breakup
            \<and> (breakupRequestedBy r' = Some (initiator r) \<or> breakupRequestedBy r' = Some (partner r)))
         \<or> (rel_status r = Requested_breakup \<and> rel_status r' = Ended
            \<and> breakupRequestedBy r \<noteq> None \<and> breakupRequestedBy r' = breakupRequestedBy r)
         \<or> (rel_status r = Requested_breakup \<and> rel_status r' = Active
            \<and> breakupRequestedBy r' = None)))"

definition keeps_lifecycle :: "(relationship \<Rightarrow> relationship) \<Rightarrow> bool" where
  "keeps_lifecycle f =
     (\<forall>x. rel_id (f x) = rel_id x \<and> initiator (f x) = initiator x \<and> partner (f x) = partner x
          \<and> rel_status (f x) = rel_status x \<and> breakupRequestedBy (f x) = breakupRequestedBy x)"

definition fresh_proposal :: "relationship list \<Rightarrow> nat \<Rightarrow> relationship \<Rightarrow> bool" where
  "fresh_proposal rs n r =
     (rel_id r = n \<and> initiator r \<noteq> partner r \<and> rel_status r = Pending
      \<and> breakupRequestedBy r = None
      \<and> existingRelationship (initiator r) (partner r) rs = None)"

definition rel_effect :: "db \<Rightarrow> db \<Rightarrow> bool" where
  "rel_effect d d' =
     (next_oid d \<le> next_oid d'
      \<and> (relationships d' = relationships d
         \<or> (\<exists>i f. keeps_lifecycle f
                \<and> relationships d' = findByIdAndUpdate rel_id i f (relationships d))
         \<or> (\<exists>r r'. findById rel_id (rel_id r') (relationships d) = Some r \<and> lifecycle_step r r'
                \<and> relationships d' = save rel_id r' (relationships d))
         \<or> (\<exists>i. relationships d' = findByIdAndDelete rel_id i (relationships d))
         \<or> (\<exists>r. fresh_proposal (relationships d) (next_oid d) r \<and> next_oid d < next_oid d'
                \<and> relationships d' = relationships d @ [r])))"



definition pair_invariant :: "db \<Rightarrow> bool" where
  "pair_invariant d =
     (one_per_pair (relationships d) \<and> distinct (map rel_id (relationships d))
      \<and> list_all (\<lambda>r. rel_id r < next_oid d) (relationships d))"

text \<open>For the concrete runs, a validator that accepts every address with an at sign and
  leaves it as it is, as the library does with the lower-case addresses
  \<^verbatim>\<open>a@example.com\<close> and \<^verbatim>\<open>b@example.com\<close> used below.\<close>

definition demo_validator :: validator where
  "demo_validator = \<lparr>isEmail = (\<lambda>e. CHR ''@'' \<in> set e), normalizeEmail = (\<lambda>e. e)\<rparr>"

text \<open>A concrete run: user 1 proposes to user 2, who accepts; user 1 requests the breakup and
  user 2 confirms it.\<close>

definition demo_body :: create_relationship_body where
  "demo_body = \<lparr>partnerEmail = ''b@example.com'', cr_title = ''Friendship'',
                cr_type = Some ''friend'', cr_description = None\<rparr>"


text \<open>An active relationship between users 1 and 2 and a hard milestone on it that rewards a
  certificate.\<close>

definition demo_milestone :: milestone where
  "demo_milestone =
     \<lparr>ms_id = 1, ms_relationship = 0, ms_title = ''Trust fall'', ms_category = ''trust_based'',
      ms_status = M_pending, completedDate = None,
      ms_rewards = \<lparr>points = 0, certificate = True\<rparr>, participants = [], evidences = [],
      ms_difficulty = Hard\<rparr>"

definition demo_active :: relationship where
  "demo_active = (new_relationship 0 1 2 demo_body 10)\<lparr>rel_status := Active, acceptedDate := Some 20\<rparr>"

text \<open>What the term controller maintains about a term of relationship \<open>r\<close>: every agreer is
  recorded once and is a party, and the status agreed has two agreers behind it.\<close>

definition term_ok :: "relationship \<Rightarrow> term_doc \<Rightarrow> bool" where
  "term_ok r t =
     (distinct (map ag_user (agreedBy t))
      \<and> list_all (\<lambda>a. is_party r (ag_user a)) (agreedBy t)
      \<and> (term_status t = Agreed \<longrightarrow> 2 \<le> length (agreedBy t)))"

text \<open>What every store reached by requests satisfies about its terms: a term points below
  the id counter, and it is in order for whichever relationship bears the id it points to.\<close>

definition term_inv :: "db \<Rightarrow> term_doc \<Rightarrow> bool" where
  "term_inv d t =
     (term_relationship t < next_oid d
      \<and> list_all (\<lambda>r. rel_id r = term_relationship t \<longrightarrow> term_ok r t) (relationships d))"

definition store_inv :: "db \<Rightarrow> bool" where
  "store_inv d = (pair_invariant d \<and> list_all (term_inv d) (termDocs d))"

text \<open>A proposed term of the active relationship.\<close>

definition demo_term :: term_doc where
  "demo_term =
     \<lparr>term_id = 3, term_relationship = 0, term_createdBy = 1, term_title = ''Weekly call'',
      term_description = ''We call each other every week'', term_category = ''communication'',
      term_priority = ''medium'', term_status = Proposed, agreedBy = [], violations = []\<rparr>"



text \<open>A relationship certificate as \<^verbatim>\<open>generateRelationshipCertificate\<close> fills it in, not yet
  numbered.\<close>

definition demo_certificate :: certificate where
  "demo_certificate =
     \<lparr>cert_id = 5, relatedTo = Some ''relationship'', relatedId = Some 0,
      cert_title = ''Certificate of Friendship Relationship'', cert_type = ''relationship'',
      level = ''gold'', recipients = [1, 2], certificateNumber = None, isRevoked = False\<rparr>"

text \<open>The store with every relationship moved to status \<open>s\<close>, and the requests whose
  controllers read the relationship only for its two parties.\<close>

definition with_status :: "rel_status \<Rightarrow> db \<Rightarrow> db" where
  "with_status s d = d\<lparr>relationships := map (\<lambda>x. x\<lparr>rel_status := s\<rparr>) (relationships d)\<rparr>"

fun status_blind :: "request \<Rightarrow> bool" where
  "status_blind (AgreeTerm sink now me fullName sig tid) = True"
| "status_blind (ReportViolation sink now me description sev tid) = True"
| "status_blind (CompleteMilestone sink now random me mid) = True"
| "status_blind (AddEvidence me ty url description mid) = True"
| "status_blind (AddReaction me ty aid) = True"
| "status_blind (AddComment me text aid) = True"
| "status_blind q = False"

text \<open>An ended relationship that still has a proposed term, an open milestone without a
  certificate reward and an activity.\<close>

definition demo_ended_db :: db where
  "demo_ended_db =
     (empty_db [])
       \<lparr>relationships := [demo_active\<lparr>rel_status := Ended, breakupRequestedBy := Some 1,
                                       endDate := Some 40\<rparr>],
        termDocs := [demo_term],
        milestones := [demo_milestone\<lparr>ms_rewards := \<lparr>points = 0, certificate = False\<rparr>\<rparr>],
        activities := [\<lparr>act_id = 4, act_relationship = 0, act_createdBy = 1,
                        act_title = ''Picnic'', act_type = ''date'', act_trustChange = 0,
                        act_relationshipStrength = 0, reactions = [], comments = []\<rparr>],
        next_oid := 5\<rparr>"

section \<open>Finding and saving documents\<close>

lemma findById_Some: "findById idf i xs = Some x \<Longrightarrow> idf x = i \<and> x \<in> set xs"
  unfolding findById_def by (induction xs) (auto split: if_splits)

lemma findById_save_same:
  "findById idf (idf y) xs = Some x \<Longrightarrow> findById idf (idf y) (save idf y xs) = Some y"
  unfolding findById_def save_def by (induction xs) (auto split: if_splits)

lemma findById_save_other:
  "idf y \<noteq> i \<Longrightarrow> findById idf i (save idf y xs) = findById idf i xs"
  unfolding findById_def save_def by (induction xs) auto

lemma findById_append_new:
  "\<forall>x\<in>set xs. idf x \<noteq> i \<Longrightarrow> idf y = i \<Longrightarrow> findById idf i (xs @ [y]) = Some y"
  unfolding findById_def by (induction xs) auto

section \<open>The lifecycle, step by step\<close>

lemma existing_None_index_free:
  "existingRelationship (initiator r) (partner r) rs = None \<Longrightarrow> pair_index_free r rs"
  unfolding existingRelationship_def pair_index_free_def by (auto simp: find_None_iff)

lemma createRelationship_created:
  assumes "createRelationshipValidation V body"
    and "map_of (users d) (normalizeEmail V (partnerEmail body)) = Some p" and "p \<noteq> me"
    and "existingRelationship me p (relationships d) = None"
    and "sink \<lparr>recipient = p, sender = me, n_type = ''relationship_invite'',
                           n_category = ''relationship'', actionRequired = True,
                           actions = [''accept'', ''decline''],
                           metadata = [(''relationshipId'', next_oid d)]\<rparr>"
  shows "fst (createRelationship V sink now me body d) = (201, ''Relationship invitation sent successfully'')"
    and "relationships (snd (createRelationship V sink now me body d)) =
           relationships d @ [new_relationship (next_oid d) me p body now]"
proof -
  let ?r = "new_relationship (next_oid d) me p body now"
  have f: "pair_index_free ?r (relationships d)"
    using assms(4) by (intro existing_None_index_free) (simp add: new_relationship_def)
  show "fst (createRelationship V sink now me body d) = (201, ''Relationship invitation sent successfully'')"
    using assms f by (simp add: createRelationship_def Notification_create_def Let_def new_relationship_def)
  show "relationships (snd (createRelationship V sink now me body d)) = relationships d @ [?r]"
    using assms f by (simp add: createRelationship_def Notification_create_def Let_def new_relationship_def)
qed

lemma acceptRelationship_accepted:
  assumes "findById rel_id rid (relationships d) = Some r"
    and "partner r = me" and "rel_status r = Pending"
  shows "findById rel_id rid (relationships (snd (acceptRelationship sink now me rid d)))
           = Some (r\<lparr>rel_status := Active, acceptedDate := Some now\<rparr>)"
    and "sink \<lparr>recipient = initiator r, sender = me, n_type = ''relationship_accepted'',
                      n_category = ''relationship'', actionRequired = False, actions = [],
                      metadata = [(''relationshipId'', rid)]\<rparr>
         \<Longrightarrow> fst (acceptRelationship sink now me rid d) = (200, ''Relationship accepted successfully'')"
proof -
  have i: "rel_id r = rid" using findById_Some [OF assms(1)] by simp
  have s: "findById rel_id rid (save rel_id (r\<lparr>rel_status := Active, acceptedDate := Some now\<rparr>) (relationships d))
        = Some (r\<lparr>rel_status := Active, acceptedDate := Some now\<rparr>)"
    using findById_save_same [of rel_id "r\<lparr>rel_status := Active, acceptedDate := Some now\<rparr>" "relationships d" r]
      assms(1) i by simp
  show "findById rel_id rid (relationships (snd (acceptRelationship sink now me rid d)))
           = Some (r\<lparr>rel_status := Active, acceptedDate := Some now\<rparr>)"
    using assms s by (simp add: acceptRelationship_def Notification_create_def Let_def)
  show "sink \<lparr>recipient = initiator r, sender = me, n_type = ''relationship_accepted'',
                      n_category = ''relationship'', actionRequired = False, actions = [],
                      metadata = [(''relationshipId'', rid)]\<rparr>
         \<Longrightarrow> fst (acceptRelationship sink now me rid d) = (200, ''Relationship accepted successfully'')"
    using assms i by (simp add: acceptRelationship_def Notification_create_def Let_def)
qed

lemma requestBreakup_requested:
  assumes "findById rel_id rid (relationships d) = Some r"
    and "includesUser r me" and "rel_status r = Active"
  shows "findById rel_id rid (relationships (snd (requestBreakup sink me rid d)))
           = Some (r\<lparr>rel_status := Requested_breakup, breakupRequestedBy := Some me\<rparr>)"
    and "fst (requestBreakup sink me rid d) = (200, ''Breakup request sent successfully'')"
proof -
  have i: "rel_id r = rid" using findById_Some [OF assms(1)] by simp
  have s: "findById rel_id rid (save rel_id (r\<lparr>rel_status := Requested_breakup, breakupRequestedBy := Some me\<rparr>) (relationships d))
        = Some (r\<lparr>rel_status := Requested_breakup, breakupRequestedBy := Some me\<rparr>)"
    using findById_save_same [of rel_id "r\<lparr>rel_status := Requested_breakup, breakupRequestedBy := Some me\<rparr>" "relationships d" r]
      assms(1) i by simp
  show "findById rel_id rid (relationships (snd (requestBreakup sink me rid d)))
           = Some (r\<lparr>rel_status := Requested_breakup, breakupRequestedBy := Some me\<rparr>)"
    using assms s by (simp add: requestBreakup_def Notification_create_def Let_def)
  show "fst (requestBreakup sink me rid d) = (200, ''Breakup request sent successfully'')"
    using assms by (simp add: requestBreakup_def Let_def)
qed

lemma confirmBreakup_ended:
  assumes "findById rel_id rid (relationships d) = Some r"
    and "includesUser r me" and "rel_status r = Requested_breakup"
    and "breakupRequestedBy r = Some u" and "u \<noteq> me"
  shows "findById rel_id rid (relationships (snd (confirmBreakup sink now me rid d)))
           = Some (r\<lparr>rel_status := Ended, endDate := Some now\<rparr>)"
    and "fst (confirmBreakup sink now me rid d) = (200, ''Breakup confirmed successfully'')"
proof -
  have i: "rel_id r = rid" using findById_Some [OF assms(1)] by simp
  have s: "findById rel_id rid (save rel_id (r\<lparr>rel_status := Ended, endDate := Some now\<rparr>) (relationships d))
        = Some (r\<lparr>rel_status := Ended, endDate := Some now\<rparr>)"
    using findById_save_same [of rel_id "r\<lparr>rel_status := Ended, endDate := Some now\<rparr>" "relationships d" r]
      assms(1) i by simp
  show "findById rel_id rid (relationships (snd (confirmBreakup sink now me rid d)))
           = Some (r\<lparr>rel_status := Ended, endDate := Some now\<rparr>)"
    using assms s by (simp add: confirmBreakup_def Notification_create_def Let_def)
  show "fst (confirmBreakup sink now me rid d) = (200, ''Breakup confirmed successfully'')"
    using assms by (simp add: confirmBreakup_def Let_def)
qed

text \<open>C1. From a store with no relationship between two distinct users \<open>a\<close> and \<open>b\<close>, with a
  working notification sink and a proposal the route accepts (an address that passes
  \<^verbatim>\<open>isEmail\<close> and, once normalised, is \<open>b\<close>'s; a title of 1 to 100 characters once trimmed;
  type and description within their bounds): \<open>a\<close>'s proposal to \<open>b\<close> is answered 201 and
  leaves a relationship with status pending; \<open>b\<close>'s acceptance is answered 200, makes it active and sets acceptedDate;
  \<open>a\<close>'s breakup request is answered 200, makes it requested_breakup with breakupRequestedBy
  = \<open>a\<close>; \<open>b\<close>'s confirmation is answered 200, makes it ended and sets endDate.\<close>

theorem happy_path_lifecycle:
  assumes valid: "createRelationshipValidation V body"
    and target: "map_of (users d) (normalizeEmail V (partnerEmail body)) = Some b"
    and distinct: "a \<noteq> b"
    and none: "existingRelationship a b (relationships d) = None"
    and fresh: "\<forall>r\<in>set (relationships d). rel_id r \<noteq> next_oid d"
    and sink: "\<forall>n. sink n"
  shows "let rid = next_oid d;
             c = createRelationship V sink t1 a body d;
             ac = acceptRelationship sink t2 b rid (snd c);
             rq = requestBreakup sink a rid (snd ac);
             cf = confirmBreakup sink t4 b rid (snd rq)
         in fst (fst c) = 201
            \<and> map_option rel_status (findById rel_id rid (relationships (snd c))) = Some Pending
            \<and> fst (fst ac) = 200
            \<and> map_option rel_status (findById rel_id rid (relationships (snd ac))) = Some Active
            \<and> map_option acceptedDate (findById rel_id rid (relationships (snd ac))) = Some (Some t2)
            \<and> fst (fst rq) = 200
            \<and> map_option rel_status (findById rel_id rid (relationships (snd rq))) = Some Requested_breakup
            \<and> map_option breakupRequestedBy (findById rel_id rid (relationships (snd rq))) = Some (Some a)
            \<and> fst (fst cf) = 200
            \<and> map_option rel_status (findById rel_id rid (relationships (snd cf))) = Some Ended
            \<and> map_option endDate (findById rel_id rid (relationships (snd cf))) = Some (Some t4)"
proof -
  define rid where "rid = next_oid d"
  define c where "c = createRelationship V sink t1 a body d"
  define ac where "ac = acceptRelationship sink t2 b rid (snd c)"
  define rq where "rq = requestBreakup sink a rid (snd ac)"
  define cf where "cf = confirmBreakup sink t4 b rid (snd rq)"
  define r1 where "r1 = new_relationship rid a b body t1"
  define r2 where "r2 = r1\<lparr>rel_status := Active, acceptedDate := Some t2\<rparr>"
  define r3 where "r3 = r2\<lparr>rel_status := Requested_breakup, breakupRequestedBy := Some a\<rparr>"
  define r4 where "r4 = r3\<lparr>rel_status := Ended, endDate := Some t4\<rparr>"
  have ba: "b \<noteq> a" using distinct by simp
  have c1: "fst c = (201, ''Relationship invitation sent successfully'')"
    unfolding c_def using createRelationship_created(1) [OF valid target ba none] sink by simp
  have "relationships (snd c) = relationships d @ [r1]"
    unfolding c_def r1_def rid_def
    using createRelationship_created(2) [OF valid target ba none] sink by simp
  then have f1: "findById rel_id rid (relationships (snd c)) = Some r1"
    using findById_append_new [of "relationships d" rel_id rid r1] fresh
    by (simp add: rid_def r1_def new_relationship_def)
  have p1: "partner r1 = b" "rel_status r1 = Pending" "initiator r1 = a"
    by (simp_all add: r1_def new_relationship_def)
  have f2: "findById rel_id rid (relationships (snd ac)) = Some r2"
    unfolding ac_def r2_def using acceptRelationship_accepted(1) [OF f1 p1(1) p1(2)] .
  have c2: "fst ac = (200, ''Relationship accepted successfully'')"
    unfolding ac_def using acceptRelationship_accepted(2) [OF f1 p1(1) p1(2)] sink by simp
  have p2: "includesUser r2 a" "rel_status r2 = Active" "includesUser r2 b"
    using p1 by (simp_all add: r2_def includesUser_def)
  have f3: "findById rel_id rid (relationships (snd rq)) = Some r3"
    unfolding rq_def r3_def using requestBreakup_requested(1) [OF f2 p2(1) p2(2)] .
  have c3: "fst rq = (200, ''Breakup request sent successfully'')"
    unfolding rq_def using requestBreakup_requested(2) [OF f2 p2(1) p2(2)] .
  have p3: "includesUser r3 b" "rel_status r3 = Requested_breakup" "breakupRequestedBy r3 = Some a"
    using p2 by (simp_all add: r3_def includesUser_def)
  have f4: "findById rel_id rid (relationships (snd cf)) = Some r4"
    unfolding cf_def r4_def using confirmBreakup_ended(1) [OF f3 p3 distinct] .
  have c4: "fst cf = (200, ''Breakup confirmed successfully'')"
    unfolding cf_def using confirmBreakup_ended(2) [OF f3 p3 distinct] .
  have "fst (fst c) = 201
            \<and> map_option rel_status (findById rel_id rid (relationships (snd c))) = Some Pending
            \<and> fst (fst ac) = 200
            \<and> map_option rel_status (findById rel_id rid (relationships (snd ac))) = Some Active
            \<and> map_option acceptedDate (findById rel_id rid (relationships (snd ac))) = Some (Some t2)
            \<and> fst (fst rq) = 200
            \<and> map_option rel_status (findById rel_id rid (relationships (snd rq))) = Some Requested_breakup
            \<and> map_option breakupRequestedBy (findById rel_id rid (relationships (snd rq))) = Some (Some a)
            \<and> fst (fst cf) = 200
            \<and> map_option rel_status (findById rel_id rid (relationships (snd cf))) = Some Ended
            \<and> map_option endDate (findById rel_id rid (relationships (snd cf))) = Some (Some t4)"
    using c1 c2 c3 c4 f1 f2 f3 f4 p1 by (simp add: r2_def r3_def r4_def)
  then show ?thesis
    unfolding Let_def rid_def c_def ac_def rq_def cf_def .
qed

theorem happy_path_lifecycle_witness:
  "let d = empty_db [(''b@example.com'', 2)];
       body = \<lparr>partnerEmail = ''b@example.com'', cr_title = ''Friendship'',
               cr_type = Some ''friend'', cr_description = None\<rparr>;
       c = createRelationship demo_validator (\<lambda>n. True) 10 1 body d;
       ac = acceptRelationship (\<lambda>n. True) 20 2 0 (snd c);
       rq = requestBreakup (\<lambda>n. True) 1 0 (snd ac);
       cf = confirmBreakup (\<lambda>n. True) 40 2 0 (snd rq)
   in fst (fst c) = 201
      \<and> map_option rel_status (findById rel_id 0 (relationships (snd c))) = Some Pending
      \<and> fst (fst ac) = 200
      \<and> map_option rel_status (findById rel_id 0 (relationships (snd ac))) = Some Active
      \<and> map_option acceptedDate (findById rel_id 0 (relationships (snd ac))) = Some (Some 20)
      \<and> fst (fst rq) = 200
      \<and> map_option rel_status (findById rel_id 0 (relationships (snd rq))) = Some Requested_breakup
      \<and> map_option breakupRequestedBy (findById rel_id 0 (relationships (snd rq))) = Some (Some 1)
      \<and> fst (fst cf) = 200
      \<and> map_option rel_status (findById rel_id 0 (relationships (snd cf))) = Some Ended
      \<and> map_option endDate (findById rel_id 0 (relationships (snd cf))) = Some (Some 40)"
proof -
  let ?d = "empty_db [(''b@example.com'', 2)]"
  let ?body = "\<lparr>partnerEmail = ''b@example.com'', cr_title = ''Friendship'',
               cr_type = Some ''friend'', cr_description = None\<rparr>"
  have h1: "createRelationshipValidation demo_validator ?body"
    by (simp add: createRelationshipValidation_def demo_validator_def valid_title_def trim_def is_space_def
        valid_relationship_type_def relationship_types_def)
  have h2: "map_of (users ?d) (normalizeEmail demo_validator (partnerEmail ?body)) = Some 2"
    by (simp add: empty_db_def demo_validator_def)
  have h3: "(1::nat) \<noteq> 2" by simp
  have h4: "existingRelationship 1 2 (relationships ?d) = None"
    by (simp add: empty_db_def existingRelationship_def)
  have h5: "\<forall>r\<in>set (relationships ?d). rel_id r \<noteq> next_oid ?d" by (simp add: empty_db_def)
  have h6: "\<forall>n. (\<lambda>n::notification. True) n" by simp
  have n0: "next_oid ?d = 0" by (simp add: empty_db_def)
  show ?thesis
    using happy_path_lifecycle [OF h1 h2 h3 h4 h5 h6, of 10 20 40] unfolding n0 Let_def .
qed

section \<open>The effect of a request on the relationships collection\<close>

lemma rel_effect_same:
  "relationships d' = relationships d \<Longrightarrow> next_oid d \<le> next_oid d' \<Longrightarrow> rel_effect d d'"
  by (simp add: rel_effect_def)

lemma rel_effect_update:
  "relationships d' = findByIdAndUpdate rel_id i f (relationships d) \<Longrightarrow> keeps_lifecycle f
   \<Longrightarrow> next_oid d \<le> next_oid d' \<Longrightarrow> rel_effect d d'"
  unfolding rel_effect_def by blast

lemma rel_effect_save:
  "relationships d' = save rel_id r' (relationships d)
   \<Longrightarrow> findById rel_id i (relationships d) = Some r \<Longrightarrow> rel_id r' = i \<Longrightarrow> lifecycle_step r r'
   \<Longrightarrow> next_oid d \<le> next_oid d' \<Longrightarrow> rel_effect d d'"
  unfolding rel_effect_def by blast

lemma rel_effect_delete:
  "relationships d' = findByIdAndDelete rel_id i (relationships d)
   \<Longrightarrow> next_oid d \<le> next_oid d' \<Longrightarrow> rel_effect d d'"
  unfolding rel_effect_def by blast

lemma rel_effect_insert:
  "relationships d' = relationships d @ [r] \<Longrightarrow> fresh_proposal (relationships d) (next_oid d) r
   \<Longrightarrow> next_oid d < next_oid d' \<Longrightarrow> rel_effect d d'"
  unfolding rel_effect_def by auto


lemma fresh_new:
  "p \<noteq> me \<Longrightarrow> existingRelationship me p rs = None
   \<Longrightarrow> fresh_proposal rs n (new_relationship n me p body now)"
  by (auto simp: fresh_proposal_def new_relationship_def)

lemma createRelationship_effect: "rel_effect d (snd (createRelationship V sink now me body d))"
  by (auto simp: createRelationship_def Notification_create_def Let_def fresh_new
      split: option.splits intro: rel_effect_same rel_effect_insert)

lemma updateRelationship_effect: "rel_effect d (snd (updateRelationship me rid body d))"
  by (auto simp: updateRelationship_def keeps_lifecycle_def
      split: option.splits intro: rel_effect_same rel_effect_update)


lemma rel_effect_saveI:
  "findById rel_id i (relationships d) = Some r \<Longrightarrow> lifecycle_step r r'
   \<Longrightarrow> relationships d' = save rel_id r' (relationships d)
   \<Longrightarrow> next_oid d \<le> next_oid d' \<Longrightarrow> rel_effect d d'"
proof -
  assume a: "findById rel_id i (relationships d) = Some r" "lifecycle_step r r'"
    "relationships d' = save rel_id r' (relationships d)" "next_oid d \<le> next_oid d'"
  have "rel_id r' = i"
    using findById_Some [OF a(1)] a(2) by (simp add: lifecycle_step_def)
  then have "findById rel_id (rel_id r') (relationships d) = Some r" using a(1) by simp
  then show ?thesis using a(2,3,4) unfolding rel_effect_def by blast
qed

lemma acceptRelationship_effect: "rel_effect d (snd (acceptRelationship sink now me rid d))"
  apply (auto simp: acceptRelationship_def Notification_create_def Let_def
      split: option.splits intro: rel_effect_same)
   apply (erule rel_effect_saveI; simp add: lifecycle_step_def)+
  done

lemma declineRelationship_effect: "rel_effect d (snd (declineRelationship sink me rid d))"
  by (auto simp: declineRelationship_def Notification_create_def Let_def
      split: option.splits intro: rel_effect_same rel_effect_delete)

lemma deleteRelationship_effect: "rel_effect d (snd (deleteRelationship now me rid d))"
  apply (auto simp: deleteRelationship_def Let_def
      split: option.splits intro: rel_effect_same rel_effect_delete)
  apply (erule rel_effect_saveI; simp add: lifecycle_step_def)+
  done

lemma requestBreakup_effect: "rel_effect d (snd (requestBreakup sink me rid d))"
  apply (auto simp: requestBreakup_def Notification_create_def Let_def
      split: option.splits intro: rel_effect_same)
   apply (erule rel_effect_saveI; auto simp add: lifecycle_step_def includesUser_def)+
  done

lemma confirmBreakup_effect: "rel_effect d (snd (confirmBreakup sink now me rid d))"
  apply (auto simp: confirmBreakup_def Notification_create_def Let_def
      split: option.splits intro: rel_effect_same)
   apply (erule rel_effect_saveI; simp add: lifecycle_step_def)+
  done

lemma cancelBreakupRequest_effect: "rel_effect d (snd (cancelBreakupRequest sink me rid d))"
  apply (auto simp: cancelBreakupRequest_def Notification_create_def Let_def
      split: option.splits intro: rel_effect_same)
   apply (erule rel_effect_saveI; simp add: lifecycle_step_def)+
  done

lemma createTerm_effect: "rel_effect d (snd (createTerm sink me body d))"
  by (auto simp: createTerm_def await_create_def Notification_create_def Let_def
      split: option.splits intro: rel_effect_same)

lemma updateTerm_effect: "rel_effect d (snd (updateTerm me tid body d))"
  by (auto simp: updateTerm_def split: option.splits intro: rel_effect_same)

lemma deleteTerm_effect: "rel_effect d (snd (deleteTerm me tid d))"
  by (auto simp: deleteTerm_def split: option.splits intro: rel_effect_same)

lemma agreeTerm_effect: "rel_effect d (snd (agreeTerm sink now me fullName sig tid d))"
  by (auto simp: agreeTerm_def await_create_def Notification_create_def Let_def
      split: option.splits intro: rel_effect_same)

lemma reportViolation_effect: "rel_effect d (snd (reportViolation sink now me description sev tid d))"
  by (auto simp: reportViolation_def await_create_def Notification_create_def Let_def
      split: option.splits intro: rel_effect_same)

lemma createMilestone_effect: "rel_effect d (snd (createMilestone sink me body d))"
  by (auto simp: createMilestone_def await_create_def Notification_create_def Let_def
      split: option.splits intro: rel_effect_same)

lemma keeps_inc: "keeps_lifecycle inc_milestonesAchieved"
  by (simp add: keeps_lifecycle_def inc_milestonesAchieved_def)

lemma completeMilestone_effect: "rel_effect d (snd (completeMilestone sink now random me mid d))"
  by (auto simp: completeMilestone_def await_create_def Notification_create_def Let_def
        Certificate_save_def keeps_inc
      split: option.splits sum.splits if_splits intro: rel_effect_same rel_effect_update)

lemma addEvidence_effect: "rel_effect d (snd (addEvidence me ty url description mid d))"
  by (auto simp: addEvidence_def split: option.splits intro: rel_effect_same)

lemma addReaction_effect: "rel_effect d (snd (addReaction me ty aid d))"
  by (auto simp: addReaction_def Let_def split: option.splits intro: rel_effect_same)

lemma addComment_effect: "rel_effect d (snd (addComment me text aid d))"
  by (auto simp: addComment_def Let_def split: option.splits intro: rel_effect_same)

lemma keeps_uncount: "keeps_lifecycle uncount_activity"
  by (simp add: keeps_lifecycle_def uncount_activity_def)

lemma deleteActivity_effect: "rel_effect d (snd (deleteActivity me aid d))"
  by (auto simp: deleteActivity_def keeps_uncount split: option.splits
      intro: rel_effect_same rel_effect_update)

lemma findByIdAndUpdate_twice:
  "(\<forall>x. idf (f x) = idf x) \<Longrightarrow>
   findByIdAndUpdate idf i g (findByIdAndUpdate idf i f xs) = findByIdAndUpdate idf i (g \<circ> f) xs"
  by (simp add: findByIdAndUpdate_def)

lemma keeps_count: "keeps_lifecycle (count_activity now)"
  by (simp add: keeps_lifecycle_def count_activity_def)

lemma keeps_trust: "keeps_lifecycle (set_trustLevel v \<circ> count_activity now)"
  by (simp add: keeps_lifecycle_def count_activity_def set_trustLevel_def)

lemma count_id: "\<forall>x. rel_id (count_activity now x) = rel_id x"
  by (simp add: count_activity_def)

lemma createActivity_effect: "rel_effect d (snd (createActivity sink now me body d))"
  by (auto simp: createActivity_def await_create_def Notification_create_def Let_def
        findByIdAndUpdate_twice [OF count_id] keeps_count keeps_trust
      split: option.splits if_splits intro: rel_effect_same rel_effect_update)

lemma handle_effect: "rel_effect d (snd (handle q d))"
  by (cases q)
    (simp_all add: createRelationship_effect updateRelationship_effect acceptRelationship_effect
      declineRelationship_effect deleteRelationship_effect requestBreakup_effect
      confirmBreakup_effect cancelBreakupRequest_effect createTerm_effect agreeTerm_effect
      updateTerm_effect deleteTerm_effect
      reportViolation_effect createMilestone_effect completeMilestone_effect addEvidence_effect
      createActivity_effect addReaction_effect addComment_effect deleteActivity_effect)

section \<open>Who may confirm a breakup, and who requested it\<close>

text \<open>C2. On a relationship in status requested_breakup, \<^verbatim>\<open>confirmBreakup\<close> called by the
  user recorded in breakupRequestedBy is answered 403 (not a party) or 400 (own request); the
  store is left as it was, so the relationship stays in requested_breakup and does not
  become ended.\<close>

theorem confirmBreakup_by_requester_rejected:
  assumes "findById rel_id rid (relationships d) = Some r"
    and "rel_status r = Requested_breakup"
    and "breakupRequestedBy r = Some u"
  shows "(fst (confirmBreakup sink now u rid d) = (403, ''Access denied'')
          \<or> fst (confirmBreakup sink now u rid d) = (400, ''You cannot confirm your own breakup request''))
         \<and> snd (confirmBreakup sink now u rid d) = d
         \<and> map_option rel_status
              (findById rel_id rid (relationships (snd (confirmBreakup sink now u rid d))))
             = Some Requested_breakup"
  using assms by (simp add: confirmBreakup_def)

theorem confirmBreakup_by_requester_rejected_witness:
  "let r = (new_relationship 0 1 2 \<lparr>partnerEmail = ''b@example.com'', cr_title = ''Friendship'',
               cr_type = Some ''friend'', cr_description = None\<rparr> 10)
             \<lparr>rel_status := Requested_breakup, breakupRequestedBy := Some 1\<rparr>;
       d = (empty_db [])\<lparr>relationships := [r]\<rparr>
   in fst (confirmBreakup (\<lambda>n. True) 40 1 0 d) = (400, ''You cannot confirm your own breakup request'')
      \<and> snd (confirmBreakup (\<lambda>n. True) 40 1 0 d) = d"
proof -
  let ?r = "(new_relationship 0 1 2 \<lparr>partnerEmail = ''b@example.com'', cr_title = ''Friendship'',
               cr_type = Some ''friend'', cr_description = None\<rparr> 10)
             \<lparr>rel_status := Requested_breakup, breakupRequestedBy := Some 1\<rparr>"
  let ?d = "(empty_db [])\<lparr>relationships := [?r]\<rparr>"
  have h1: "findById rel_id 0 (relationships ?d) = Some ?r"
    by (simp add: findById_def new_relationship_def)
  have h2: "rel_status ?r = Requested_breakup" by simp
  have h3: "breakupRequestedBy ?r = Some 1" by simp
  have "fst (confirmBreakup (\<lambda>n. True) 40 1 0 ?d) \<noteq> (403, ''Access denied'')"
    by (simp add: confirmBreakup_def findById_def new_relationship_def includesUser_def)
  then show ?thesis
    using confirmBreakup_by_requester_rejected [OF h1 h2 h3, of "\<lambda>n. True" 40]
    unfolding Let_def by blast
qed

lemma serve_induct_inv:
  assumes "\<And>d q. P d \<Longrightarrow> P (snd (handle q d))" and "P d"
  shows "P (serve qs d)"
  using assms(2) by (induction qs arbitrary: d) (auto intro: assms(1))

lemma set_save: "x \<in> set (save idf y xs) \<Longrightarrow> x = y \<or> x \<in> set xs"
  by (auto simp: save_def split: if_splits)








section \<open>One relationship per pair\<close>

lemma existingRelationship_Some:
  "r \<in> set rs \<Longrightarrow> (initiator r = a \<and> partner r = b) \<or> (initiator r = b \<and> partner r = a)
   \<Longrightarrow> existingRelationship a b rs \<noteq> None"
  unfolding existingRelationship_def by (auto simp: find_None_iff)

lemma one_per_pair_append:
  "one_per_pair (rs @ [r]) = (one_per_pair rs \<and> (\<forall>x\<in>set rs. \<not> same_pair x r))"
  by (induction rs) (auto simp: list_all_iff)

lemma one_per_pair_map:
  "\<forall>x\<in>set rs. initiator (g x) = initiator x \<and> partner (g x) = partner x
   \<Longrightarrow> one_per_pair (map g rs) = one_per_pair rs"
  by (induction rs) (auto simp: list_all_iff same_pair_def)

lemma one_per_pair_filter: "one_per_pair rs \<Longrightarrow> one_per_pair (filter P rs)"
  by (induction rs) (auto simp: list_all_iff)

lemma map_rel_id_map:
  "\<forall>x\<in>set rs. rel_id (g x) = rel_id x \<Longrightarrow> map rel_id (map g rs) = map rel_id rs"
  by (induction rs) auto

lemma keys_preserved:
  assumes "\<forall>x\<in>set (relationships d).
             rel_id (g x) = rel_id x \<and> initiator (g x) = initiator x \<and> partner (g x) = partner x"
    and "relationships d' = map g (relationships d)" and "next_oid d \<le> next_oid d'"
    and "pair_invariant d"
  shows "pair_invariant d'"
proof -
  have 1: "one_per_pair (relationships d')"
    using assms(1,2,4) one_per_pair_map [of "relationships d" g] by (simp add: pair_invariant_def)
  have 2: "map rel_id (relationships d') = map rel_id (relationships d)"
    using assms(1,2) map_rel_id_map [of "relationships d" g] by simp
  have 3: "list_all (\<lambda>r. rel_id r < next_oid d') (relationships d')"
    using assms by (auto simp: pair_invariant_def list_all_iff)
  show ?thesis using 1 2 3 assms(4) by (simp add: pair_invariant_def)
qed

lemma rel_effect_pair_invariant:
  assumes "rel_effect d d'" and "pair_invariant d"
  shows "pair_invariant d'"
proof -
  have le: "next_oid d \<le> next_oid d'" using assms(1) by (simp add: rel_effect_def)
  from assms(1) consider
      "relationships d' = relationships d"
    | i f where "keeps_lifecycle f" "relationships d' = findByIdAndUpdate rel_id i f (relationships d)"
    | r r' where "findById rel_id (rel_id r') (relationships d) = Some r" "lifecycle_step r r'"
        "relationships d' = save rel_id r' (relationships d)"
    | i where "relationships d' = findByIdAndDelete rel_id i (relationships d)"
    | r where "fresh_proposal (relationships d) (next_oid d) r" "next_oid d < next_oid d'"
        "relationships d' = relationships d @ [r]"
    unfolding rel_effect_def by blast
  then show ?thesis
  proof cases
    case 1
    then show ?thesis using assms(2) le by (auto simp: pair_invariant_def list_all_iff)
  next
    case 2
    show ?thesis
      by (rule keys_preserved [where g = "\<lambda>x. if rel_id x = i then f x else x", OF _ _ le assms(2)])
         (use 2 in \<open>auto simp: keeps_lifecycle_def findByIdAndUpdate_def\<close>)
  next
    case 3
    have r: "r \<in> set (relationships d)" "rel_id r = rel_id r'"
      using findById_Some [OF 3(1)] by simp_all
    have inj: "inj_on rel_id (set (relationships d))"
      using assms(2) by (simp add: pair_invariant_def distinct_map)
    have same: "x = r" if "x \<in> set (relationships d)" "rel_id x = rel_id r'" for x
      using inj that r by (simp add: inj_on_def)
    show ?thesis
      by (rule keys_preserved [where g = "\<lambda>x. if rel_id x = rel_id r' then r' else x", OF _ _ le assms(2)])
         (use 3 same in \<open>auto simp: lifecycle_step_def save_def\<close>)
  next
    case 4
    then show ?thesis
      using assms(2) le
      by (auto simp: pair_invariant_def findByIdAndDelete_def list_all_iff one_per_pair_filter
          distinct_map_filter)
  next
    case 5
    have "\<forall>x\<in>set (relationships d). \<not> same_pair x r"
      using 5(1) existingRelationship_Some [of _ "relationships d" "initiator r" "partner r"]
      by (auto simp: fresh_proposal_def same_pair_def)
    moreover have "rel_id r \<notin> rel_id ` set (relationships d)"
      using 5(1) assms(2) by (auto simp: fresh_proposal_def pair_invariant_def list_all_iff)
    ultimately show ?thesis
      using assms(2) 5 by (auto simp: pair_invariant_def one_per_pair_append list_all_iff fresh_proposal_def)
  qed
qed



section \<open>Notification failures\<close>

lemma findById_update:
  "\<forall>x. idf (f x) = idf x \<Longrightarrow>
   findById idf i (findByIdAndUpdate idf i f xs) = map_option f (findById idf i xs)"
  unfolding findById_def findByIdAndUpdate_def by (induction xs) auto

lemma findById_save_found:
  "findById idf i xs = Some x \<Longrightarrow> idf y = i \<Longrightarrow> findById idf i (save idf y xs) = Some y"
  using findById_save_same [of idf y xs x] by simp

text \<open>C8. With a notification sink that rejects every create call, no lifecycle operation
  rolls its transition back: the relationship is inserted, activated, deleted, reactivated,
  moved to requested_breakup or ended all the same. \<^verbatim>\<open>requestBreakup\<close> and
  \<^verbatim>\<open>confirmBreakup\<close> answer 200. The four operations that await the call
  (\<^verbatim>\<open>createRelationship\<close>, \<^verbatim>\<open>acceptRelationship\<close>, \<^verbatim>\<open>declineRelationship\<close>,
  \<^verbatim>\<open>cancelBreakupRequest\<close>) answer 500: they report the failure to the caller, where the
  specification wants it swallowed.\<close>

theorem sink_failure_reported_by_awaiting_operations:
  assumes down: "\<forall>n. \<not> sink n"
    and r: "findById rel_id rid (relationships d) = Some r"
  shows
    "(createRelationshipValidation V body \<and> map_of (users d) (normalizeEmail V (partnerEmail body)) = Some p \<and> p \<noteq> me
        \<and> existingRelationship me p (relationships d) = None
      \<longrightarrow> fst (createRelationship V sink now me body d) = (500, ''Server error during relationship creation'')
          \<and> relationships (snd (createRelationship V sink now me body d))
              = relationships d @ [new_relationship (next_oid d) me p body now])
     \<and> (partner r = me \<and> rel_status r = Pending
      \<longrightarrow> fst (acceptRelationship sink now me rid d) = (500, ''Server error during relationship acceptance'')
          \<and> findById rel_id rid (relationships (snd (acceptRelationship sink now me rid d)))
              = Some (r\<lparr>rel_status := Active, acceptedDate := Some now\<rparr>))
     \<and> (partner r = me \<and> rel_status r = Pending
      \<longrightarrow> fst (declineRelationship sink me rid d) = (500, ''Server error during relationship decline'')
          \<and> relationships (snd (declineRelationship sink me rid d))
              = findByIdAndDelete rel_id rid (relationships d))
     \<and> (includesUser r me \<and> rel_status r = Requested_breakup \<and> breakupRequestedBy r = Some me
      \<longrightarrow> fst (cancelBreakupRequest sink me rid d)
            = (500, ''Server error during breakup request cancellation'')
          \<and> findById rel_id rid (relationships (snd (cancelBreakupRequest sink me rid d)))
              = Some (r\<lparr>rel_status := Active, breakupRequestedBy := None\<rparr>))
     \<and> (includesUser r me \<and> rel_status r = Active
      \<longrightarrow> fst (requestBreakup sink me rid d) = (200, ''Breakup request sent successfully'')
          \<and> findById rel_id rid (relationships (snd (requestBreakup sink me rid d)))
              = Some (r\<lparr>rel_status := Requested_breakup, breakupRequestedBy := Some me\<rparr>))
     \<and> (includesUser r me \<and> rel_status r = Requested_breakup \<and> breakupRequestedBy r = Some u \<and> u \<noteq> me
      \<longrightarrow> fst (confirmBreakup sink now me rid d) = (200, ''Breakup confirmed successfully'')
          \<and> findById rel_id rid (relationships (snd (confirmBreakup sink now me rid d)))
              = Some (r\<lparr>rel_status := Ended, endDate := Some now\<rparr>))"
proof -
  have i: "rel_id r = rid" using findById_Some [OF r] by simp
  have sv: "findById rel_id rid (save rel_id y (relationships d)) = Some y" if "rel_id y = rid" for y
    using findById_save_found [OF r that] .
  have create: "fst (createRelationship V sink now me body d) = (500, ''Server error during relationship creation'')
          \<and> relationships (snd (createRelationship V sink now me body d))
              = relationships d @ [new_relationship (next_oid d) me p body now]"
    if "createRelationshipValidation V body" "map_of (users d) (normalizeEmail V (partnerEmail body)) = Some p" "p \<noteq> me"
        "existingRelationship me p (relationships d) = None"
  proof -
    have "pair_index_free (new_relationship (next_oid d) me p body now) (relationships d)"
      using that(4) by (intro existing_None_index_free) (simp add: new_relationship_def)
    then show ?thesis
      using that down by (simp add: createRelationship_def Notification_create_def Let_def)
  qed
  have accept: "fst (acceptRelationship sink now me rid d) = (500, ''Server error during relationship acceptance'')
          \<and> findById rel_id rid (relationships (snd (acceptRelationship sink now me rid d)))
              = Some (r\<lparr>rel_status := Active, acceptedDate := Some now\<rparr>)"
    if "partner r = me" "rel_status r = Pending"
    using that down r i sv [of "r\<lparr>rel_status := Active, acceptedDate := Some now\<rparr>"]
    by (simp add: acceptRelationship_def Notification_create_def Let_def)
  have decline: "fst (declineRelationship sink me rid d) = (500, ''Server error during relationship decline'')
          \<and> relationships (snd (declineRelationship sink me rid d))
              = findByIdAndDelete rel_id rid (relationships d)"
    if "partner r = me" "rel_status r = Pending"
    using that down r by (simp add: declineRelationship_def Notification_create_def Let_def)
  have cancel: "fst (cancelBreakupRequest sink me rid d)
            = (500, ''Server error during breakup request cancellation'')
          \<and> findById rel_id rid (relationships (snd (cancelBreakupRequest sink me rid d)))
              = Some (r\<lparr>rel_status := Active, breakupRequestedBy := None\<rparr>)"
    if "includesUser r me" "rel_status r = Requested_breakup" "breakupRequestedBy r = Some me"
    using that down r i sv [of "r\<lparr>rel_status := Active, breakupRequestedBy := None\<rparr>"]
    by (simp add: cancelBreakupRequest_def Notification_create_def Let_def)
  have request: "fst (requestBreakup sink me rid d) = (200, ''Breakup request sent successfully'')
          \<and> findById rel_id rid (relationships (snd (requestBreakup sink me rid d)))
              = Some (r\<lparr>rel_status := Requested_breakup, breakupRequestedBy := Some me\<rparr>)"
    if "includesUser r me" "rel_status r = Active"
    using requestBreakup_requested [OF r that] by simp
  have confirm: "fst (confirmBreakup sink now me rid d) = (200, ''Breakup confirmed successfully'')
          \<and> findById rel_id rid (relationships (snd (confirmBreakup sink now me rid d)))
              = Some (r\<lparr>rel_status := Ended, endDate := Some now\<rparr>)"
    if "includesUser r me" "rel_status r = Requested_breakup" "breakupRequestedBy r = Some u" "u \<noteq> me"
    using confirmBreakup_ended [OF r that] by simp
  show ?thesis using create accept decline cancel request confirm by blast
qed

theorem sink_failure_reported_by_awaiting_operations_witness:
  "let r = new_relationship 0 1 2 demo_body 10; d = (empty_db [])\<lparr>relationships := [r], next_oid := 1\<rparr>
   in fst (acceptRelationship (\<lambda>n. False) 20 2 0 d) = (500, ''Server error during relationship acceptance'')
      \<and> findById rel_id 0 (relationships (snd (acceptRelationship (\<lambda>n. False) 20 2 0 d)))
          = Some (r\<lparr>rel_status := Active, acceptedDate := Some 20\<rparr>)"
proof -
  let ?r = "new_relationship 0 1 2 demo_body 10"
  let ?d = "(empty_db [])\<lparr>relationships := [?r], next_oid := 1\<rparr>"
  have h1: "\<forall>n. \<not> (\<lambda>n::notification. False) n" by simp
  have h2: "findById rel_id 0 (relationships ?d) = Some ?r"
    by (simp add: findById_def new_relationship_def)
  have h3: "partner ?r = 2 \<and> rel_status ?r = Pending" by (simp add: new_relationship_def)
  show ?thesis
    using sink_failure_reported_by_awaiting_operations [OF h1 h2, where me = 2 and now = 20] h3
    unfolding Let_def by blast
qed

section \<open>Completing a milestone that rewards a certificate\<close>

lemma milestone_certificate_invalid: "\<not> valid_certificate (milestone_certificate i m r)"
  by (simp add: valid_certificate_def milestone_certificate_def)

text \<open>C4. \<^verbatim>\<open>completeMilestone\<close> by a party on a milestone that is not completed and has
  \<^verbatim>\<open>rewards.certificate\<close> set marks the milestone completed and increments
  milestonesAchieved by one, and builds a certificate for both parties (at level gold when
  the difficulty is hard). The certificate lacks the required \<^verbatim>\<open>relatedTo\<close> and
  \<^verbatim>\<open>relatedId\<close>, its save is rejected, no certificate is stored and the answer is 500: the
  operation does not succeed and issues nothing, where the specification wants a gold
  certificate issued.\<close>

theorem completeMilestone_certificate_rejected:
  assumes m: "findById ms_id mid (milestones d) = Some m0"
    and r: "findById rel_id (ms_relationship m0) (relationships d) = Some r"
    and party: "is_party r me"
    and pending: "ms_status m0 \<noteq> Completed"
    and reward: "certificate (ms_rewards m0)"
  shows "fst (completeMilestone sink now random me mid d) = (500, ''Server error during milestone completion'')
     \<and> certificates (snd (completeMilestone sink now random me mid d)) = certificates d
     \<and> map_option ms_status (findById ms_id mid (milestones (snd (completeMilestone sink now random me mid d))))
         = Some Completed
     \<and> map_option (\<lambda>x. milestonesAchieved (stats x))
          (findById rel_id (ms_relationship m0) (relationships (snd (completeMilestone sink now random me mid d))))
         = Some (milestonesAchieved (stats r) + 1)
     \<and> recipients (milestone_certificate (next_oid d) (complete m0 me now) r) = [initiator r, partner r]
     \<and> (ms_difficulty m0 = Hard \<longrightarrow>
          level (milestone_certificate (next_oid d) (complete m0 me now) r) = ''gold'')"
proof -
  have i: "ms_id m0 = mid" "rel_id r = ms_relationship m0"
    using findById_Some [OF m] findById_Some [OF r] by simp_all
  have c: "certificate (ms_rewards (complete m0 me now))" "ms_id (complete m0 me now) = mid"
    "ms_status (complete m0 me now) = Completed" "ms_difficulty (complete m0 me now) = ms_difficulty m0"
    using reward i by (simp_all add: complete_def Let_def)
  have sv: "findById ms_id mid (save ms_id (complete m0 me now) (milestones d)) = Some (complete m0 me now)"
    using findById_save_found [OF m c(2)] .
  have up: "findById rel_id (ms_relationship m0)
              (findByIdAndUpdate rel_id (ms_relationship m0) inc_milestonesAchieved (relationships d))
            = Some (inc_milestonesAchieved r)"
    using findById_update [of rel_id inc_milestonesAchieved "ms_relationship m0" "relationships d"] r
    by (simp add: inc_milestonesAchieved_def)
  have rej: "Certificate_save ts rnd (milestone_certificate k (complete m0 me now) r) d' = Inl ValidationError"
    for ts rnd k d'
    by (simp add: Certificate_save_def milestone_certificate_invalid)
  have main: "fst (completeMilestone sink now random me mid d) = (500, ''Server error during milestone completion'')
     \<and> certificates (snd (completeMilestone sink now random me mid d)) = certificates d
     \<and> map_option ms_status (findById ms_id mid (milestones (snd (completeMilestone sink now random me mid d))))
         = Some Completed
     \<and> map_option (\<lambda>x. milestonesAchieved (stats x))
          (findById rel_id (ms_relationship m0) (relationships (snd (completeMilestone sink now random me mid d))))
         = Some (milestonesAchieved (stats r) + 1)"
    using m r party pending c sv up i
    by (simp add: completeMilestone_def Let_def rej inc_milestonesAchieved_def)
  have attempt: "recipients (milestone_certificate (next_oid d) (complete m0 me now) r) = [initiator r, partner r]
     \<and> (ms_difficulty m0 = Hard \<longrightarrow>
          level (milestone_certificate (next_oid d) (complete m0 me now) r) = ''gold'')"
    using c(4) by (simp add: milestone_certificate_def level_for_def)
  show ?thesis using main attempt by blast
qed

theorem completeMilestone_certificate_rejected_witness:
  "let d = (empty_db [])\<lparr>relationships := [demo_active], milestones := [demo_milestone], next_oid := 2\<rparr>;
       res = completeMilestone (\<lambda>n. True) 30 ''abcde'' 1 1 d
   in milestonesAchieved (stats demo_active) = 0
      \<and> fst res = (500, ''Server error during milestone completion'')
      \<and> certificates (snd res) = []
      \<and> map_option ms_status (findById ms_id 1 (milestones (snd res))) = Some Completed
      \<and> map_option (\<lambda>x. milestonesAchieved (stats x)) (findById rel_id 0 (relationships (snd res))) = Some 1"
proof -
  let ?d = "(empty_db [])\<lparr>relationships := [demo_active], milestones := [demo_milestone], next_oid := 2\<rparr>"
  have h1: "findById ms_id 1 (milestones ?d) = Some demo_milestone"
    by (simp add: findById_def demo_milestone_def)
  have h2: "findById rel_id (ms_relationship demo_milestone) (relationships ?d) = Some demo_active"
    by (simp add: findById_def demo_milestone_def demo_active_def new_relationship_def)
  have h3: "is_party demo_active 1" by (simp add: is_party_def demo_active_def new_relationship_def)
  have h4: "ms_status demo_milestone \<noteq> Completed" by (simp add: demo_milestone_def)
  have h5: "certificate (ms_rewards demo_milestone)" by (simp add: demo_milestone_def)
  have z: "milestonesAchieved (stats demo_active) = 0" "ms_relationship demo_milestone = 0"
    "certificates ?d = []"
    by (simp_all add: demo_active_def new_relationship_def demo_milestone_def empty_db_def)
  show ?thesis
    using completeMilestone_certificate_rejected [OF h1 h2 h3 h4 h5, of "\<lambda>n. True" 30 "''abcde''"] z
    unfolding Let_def by simp
qed

section \<open>Term agreement\<close>

lemma parties_card: "list_all (\<lambda>a. is_party r (ag_user a)) as \<Longrightarrow> card (ag_user ` set as) \<le> 2"
proof -
  assume "list_all (\<lambda>a. is_party r (ag_user a)) as"
  then have "ag_user ` set as \<subseteq> {initiator r, partner r}"
    by (auto simp: list_all_iff is_party_def)
  then have "card (ag_user ` set as) \<le> card {initiator r, partner r}"
    by (intro card_mono) auto
  also have "\<dots> \<le> 2" by (simp add: card_insert_if)
  finally show ?thesis .
qed

lemma agreeTerm_saved:
  assumes t: "findById term_id tid (termDocs d) = Some t"
    and r: "findById rel_id (term_relationship t) (relationships d) = Some r"
    and party: "is_party r me" and new: "\<not> hasUserAgreed t me"
  shows "findById term_id tid (termDocs (snd (agreeTerm sink now me fullName sig tid d)))
         = Some (t\<lparr>agreedBy := agreedBy t @ [\<lparr>ag_user = me, agreedAt = now, signature = signature_of fullName sig\<rparr>],
                  term_status := (if 2 \<le> length (agreedBy t) + 1 then Agreed else term_status t)\<rparr>)"
    and "sink \<lparr>recipient = other_party r me, sender = me, n_type = ''term_agreed'',
                      n_category = ''relationship'', actionRequired = False, actions = [],
                      metadata = [(''termId'', tid), (''relationshipId'', rel_id r)]\<rparr>
         \<Longrightarrow> fst (agreeTerm sink now me fullName sig tid d) = (200, ''Term agreement recorded successfully'')"
proof -
  have i: "term_id t = tid" using findById_Some [OF t] by simp
  let ?t2 = "t\<lparr>agreedBy := agreedBy t @ [\<lparr>ag_user = me, agreedAt = now, signature = signature_of fullName sig\<rparr>],
                  term_status := (if 2 \<le> length (agreedBy t) + 1 then Agreed else term_status t)\<rparr>"
  have sv: "findById term_id tid (save term_id ?t2 (termDocs d)) = Some ?t2"
    using findById_save_found [OF t, of ?t2] i by simp
  show "findById term_id tid (termDocs (snd (agreeTerm sink now me fullName sig tid d))) = Some ?t2"
  proof (cases "Suc 0 \<le> length (agreedBy t)")
    case True
    then show ?thesis
      using t r party new sv i
      by (simp add: agreeTerm_def await_create_def Notification_create_def Let_def signature_of_def)
  next
    case False
    then show ?thesis
      using t r party new sv i
      by (simp add: agreeTerm_def await_create_def Notification_create_def Let_def signature_of_def)
  qed
  show "sink \<lparr>recipient = other_party r me, sender = me, n_type = ''term_agreed'',
                      n_category = ''relationship'', actionRequired = False, actions = [],
                      metadata = [(''termId'', tid), (''relationshipId'', rel_id r)]\<rparr>
         \<Longrightarrow> fst (agreeTerm sink now me fullName sig tid d) = (200, ''Term agreement recorded successfully'')"
    using t r party new i
    by (auto simp: agreeTerm_def await_create_def Notification_create_def Let_def)
qed

lemma termDocs_unchanged:
  "termDocs (snd (createRelationship V sink now me cb d)) = termDocs d"
  "termDocs (snd (updateRelationship me rid ub d)) = termDocs d"
  "termDocs (snd (acceptRelationship sink now me rid d)) = termDocs d"
  "termDocs (snd (declineRelationship sink me rid d)) = termDocs d"
  "termDocs (snd (deleteRelationship now me rid d)) = termDocs d"
  "termDocs (snd (requestBreakup sink me rid d)) = termDocs d"
  "termDocs (snd (confirmBreakup sink now me rid d)) = termDocs d"
  "termDocs (snd (cancelBreakupRequest sink me rid d)) = termDocs d"
  "termDocs (snd (createMilestone sink me mb d)) = termDocs d"
  "termDocs (snd (completeMilestone sink now random me mid d)) = termDocs d"
  "termDocs (snd (addEvidence me ety url description mid d)) = termDocs d"
  "termDocs (snd (createActivity sink now me ab d)) = termDocs d"
  "termDocs (snd (addReaction me rty aid d)) = termDocs d"
  "termDocs (snd (addComment me ctext aid d)) = termDocs d"
  "termDocs (snd (deleteActivity me aid d)) = termDocs d"
  by (auto simp: createRelationship_def updateRelationship_def acceptRelationship_def
      declineRelationship_def deleteRelationship_def requestBreakup_def confirmBreakup_def
      cancelBreakupRequest_def createMilestone_def completeMilestone_def addEvidence_def
      createActivity_def addReaction_def addComment_def deleteActivity_def
      await_create_def Notification_create_def Certificate_save_def Let_def
      split: option.splits sum.splits if_splits)


lemma rel_effect_parties:
  assumes "rel_effect d d'" and "r' \<in> set (relationships d')"
  shows "rel_id r' = next_oid d
         \<or> (\<exists>r\<in>set (relationships d).
               rel_id r = rel_id r' \<and> initiator r = initiator r' \<and> partner r = partner r')"
proof -
  from assms(1) consider
      "relationships d' = relationships d"
    | i f where "keeps_lifecycle f" "relationships d' = findByIdAndUpdate rel_id i f (relationships d)"
    | r r'' where "findById rel_id (rel_id r'') (relationships d) = Some r" "lifecycle_step r r''"
        "relationships d' = save rel_id r'' (relationships d)"
    | i where "relationships d' = findByIdAndDelete rel_id i (relationships d)"
    | r where "fresh_proposal (relationships d) (next_oid d) r" "relationships d' = relationships d @ [r]"
    unfolding rel_effect_def by blast
  then show ?thesis
  proof cases
    case 1
    then show ?thesis using assms(2) by auto
  next
    case 2
    then show ?thesis
      using assms(2) by (auto simp: findByIdAndUpdate_def keeps_lifecycle_def split: if_splits)
  next
    case 3
    have "r \<in> set (relationships d)" using findById_Some [OF 3(1)] by simp
    then show ?thesis
      using assms(2) 3(2,3) by (auto simp: lifecycle_step_def dest!: set_save)
  next
    case 4
    then show ?thesis using assms(2) by (auto simp: findByIdAndDelete_def)
  next
    case 5
    then show ?thesis using assms(2) by (auto simp: fresh_proposal_def)
  qed
qed

lemma term_ok_parties:
  "initiator r = initiator r' \<Longrightarrow> partner r = partner r' \<Longrightarrow> term_ok r' t = term_ok r t"
  by (simp add: term_ok_def is_party_def)

lemma term_inv_lift:
  assumes "rel_effect d d'" and "term_inv d t"
  shows "term_inv d' t"
proof -
  have le: "next_oid d \<le> next_oid d'" using assms(1) by (simp add: rel_effect_def)
  have "term_ok r' t" if m: "r' \<in> set (relationships d')" "rel_id r' = term_relationship t" for r'
  proof -
    have "rel_id r' \<noteq> next_oid d" using m(2) assms(2) by (simp add: term_inv_def)
    then obtain r where r: "r \<in> set (relationships d)" "rel_id r = rel_id r'"
        "initiator r = initiator r'" "partner r = partner r'"
      using rel_effect_parties [OF assms(1) m(1)] by blast
    then have "term_ok r t" using assms(2) m(2) by (auto simp: term_inv_def list_all_iff)
    then show ?thesis using term_ok_parties [OF r(3,4)] by simp
  qed
  then show ?thesis using assms(2) le by (auto simp: term_inv_def list_all_iff)
qed

lemma term_ok_agree:
  assumes "term_ok r t" and "is_party r me" and "\<not> hasUserAgreed t me"
  shows "term_ok r (t\<lparr>agreedBy := agreedBy t @ [\<lparr>ag_user = me, agreedAt = now, signature = sg\<rparr>],
                     term_status := (if 2 \<le> length (agreedBy t) + 1 then Agreed else term_status t)\<rparr>)"
proof -
  have "me \<notin> ag_user ` set (agreedBy t)"
    using assms(3) by (auto simp: hasUserAgreed_def list_ex_iff)
  then show ?thesis using assms(1,2) by (auto simp: term_ok_def)
qed

lemma createTerm_termDocs:
  "termDocs (snd (createTerm sink me body d)) = termDocs d
   \<or> (\<exists>r t. findById rel_id (term_relationship t) (relationships d) = Some r
          \<and> agreedBy t = [] \<and> term_status t = Proposed
          \<and> termDocs (snd (createTerm sink me body d)) = termDocs d @ [t])"
  by (auto simp: createTerm_def await_create_def Notification_create_def Let_def
      split: option.splits)

lemma agreeTerm_termDocs:
  "termDocs (snd (agreeTerm sink now me fullName sig tid d)) = termDocs d
   \<or> (\<exists>r t. findById term_id tid (termDocs d) = Some t
          \<and> findById rel_id (term_relationship t) (relationships d) = Some r
          \<and> is_party r me \<and> \<not> hasUserAgreed t me
          \<and> termDocs (snd (agreeTerm sink now me fullName sig tid d))
              = save term_id
                  (t\<lparr>agreedBy := agreedBy t @ [\<lparr>ag_user = me, agreedAt = now, signature = signature_of fullName sig\<rparr>],
                     term_status := (if 2 \<le> length (agreedBy t) + 1 then Agreed else term_status t)\<rparr>)
                  (termDocs d))"
  by (auto simp: agreeTerm_def await_create_def Notification_create_def Let_def
      split: option.splits)

lemma reportViolation_termDocs:
  "termDocs (snd (reportViolation sink now me description sev tid d)) = termDocs d
   \<or> (\<exists>t v. findById term_id tid (termDocs d) = Some t
          \<and> termDocs (snd (reportViolation sink now me description sev tid d))
              = save term_id (t\<lparr>violations := violations t @ [v]\<rparr>) (termDocs d))"
  by (auto simp: reportViolation_def await_create_def Notification_create_def Let_def
      split: option.splits)

lemma updateTerm_termDocs:
  "termDocs (snd (updateTerm me tid body d)) = termDocs d
   \<or> termDocs (snd (updateTerm me tid body d))
       = findByIdAndUpdate term_id tid (apply_term_update body) (termDocs d)"
  by (auto simp: updateTerm_def split: option.splits)

lemma deleteTerm_termDocs:
  "termDocs (snd (deleteTerm me tid d)) = termDocs d
   \<or> termDocs (snd (deleteTerm me tid d)) = findByIdAndDelete term_id tid (termDocs d)"
  by (auto simp: deleteTerm_def split: option.splits)

lemma handle_terms:
  assumes inv: "store_inv d" and t': "t' \<in> set (termDocs (snd (handle q d)))"
  shows "term_inv d t'"
proof -
  have old: "term_inv d t" if "t \<in> set (termDocs d)" for t
    using inv that by (simp add: store_inv_def list_all_iff)
  have ids: "rel_id r < next_oid d" if "r \<in> set (relationships d)" for r
    using inv that by (simp add: store_inv_def pair_invariant_def list_all_iff)
  have inj: "inj_on rel_id (set (relationships d))"
    using inv by (simp add: store_inv_def pair_invariant_def distinct_map)
  show ?thesis
  proof (cases q)
    case (CreateTerm sink me body)
    from createTerm_termDocs [of sink me body d] show ?thesis
    proof
      assume "termDocs (snd (createTerm sink me body d)) = termDocs d"
      then show ?thesis using t' old CreateTerm by simp
    next
      assume "\<exists>r t. findById rel_id (term_relationship t) (relationships d) = Some r
          \<and> agreedBy t = [] \<and> term_status t = Proposed
          \<and> termDocs (snd (createTerm sink me body d)) = termDocs d @ [t]"
      then obtain r t where n: "findById rel_id (term_relationship t) (relationships d) = Some r"
          "agreedBy t = []" "term_status t = Proposed"
          "termDocs (snd (createTerm sink me body d)) = termDocs d @ [t]"
        by blast
      have "term_inv d t"
        using findById_Some [OF n(1)] ids [of r] n(2,3)
        by (auto simp: term_inv_def term_ok_def list_all_iff)
      then show ?thesis using t' old n(4) CreateTerm by auto
    qed
  next
    case (AgreeTerm sink now me fullName sig tid)
    from agreeTerm_termDocs [of sink now me fullName sig tid d] show ?thesis
    proof
      assume "termDocs (snd (agreeTerm sink now me fullName sig tid d)) = termDocs d"
      then show ?thesis using t' old AgreeTerm by simp
    next
      assume "\<exists>r t. findById term_id tid (termDocs d) = Some t
          \<and> findById rel_id (term_relationship t) (relationships d) = Some r
          \<and> is_party r me \<and> \<not> hasUserAgreed t me
          \<and> termDocs (snd (agreeTerm sink now me fullName sig tid d))
              = save term_id
                  (t\<lparr>agreedBy := agreedBy t @ [\<lparr>ag_user = me, agreedAt = now, signature = signature_of fullName sig\<rparr>],
                     term_status := (if 2 \<le> length (agreedBy t) + 1 then Agreed else term_status t)\<rparr>)
                  (termDocs d)"
      then obtain r t where n: "findById term_id tid (termDocs d) = Some t"
          "findById rel_id (term_relationship t) (relationships d) = Some r"
          "is_party r me" "\<not> hasUserAgreed t me"
          "termDocs (snd (agreeTerm sink now me fullName sig tid d))
              = save term_id
                  (t\<lparr>agreedBy := agreedBy t @ [\<lparr>ag_user = me, agreedAt = now, signature = signature_of fullName sig\<rparr>],
                     term_status := (if 2 \<le> length (agreedBy t) + 1 then Agreed else term_status t)\<rparr>)
                  (termDocs d)"
        by blast
      let ?t2 = "t\<lparr>agreedBy := agreedBy t @ [\<lparr>ag_user = me, agreedAt = now, signature = signature_of fullName sig\<rparr>],
                     term_status := (if 2 \<le> length (agreedBy t) + 1 then Agreed else term_status t)\<rparr>"
      have ti: "term_inv d t" using old findById_Some [OF n(1)] by simp
      have rr: "r \<in> set (relationships d)" "rel_id r = term_relationship t"
        using findById_Some [OF n(2)] by simp_all
      have "term_ok r'' ?t2" if "r'' \<in> set (relationships d)" "rel_id r'' = term_relationship t" for r''
      proof -
        have "r'' = r" using inj that rr by (simp add: inj_on_def)
        moreover have "term_ok r t" using ti rr by (auto simp: term_inv_def list_all_iff)
        ultimately show ?thesis using term_ok_agree [OF _ n(3,4)] by simp
      qed
      then have "term_inv d ?t2" using ti by (auto simp: term_inv_def list_all_iff)
      then show ?thesis using t' old n(5) AgreeTerm by (auto dest!: set_save)
    qed
  next
    case (ReportViolation sink now me description sev tid)
    from reportViolation_termDocs [of sink now me description sev tid d] show ?thesis
    proof
      assume "termDocs (snd (reportViolation sink now me description sev tid d)) = termDocs d"
      then show ?thesis using t' old ReportViolation by simp
    next
      assume "\<exists>t v. findById term_id tid (termDocs d) = Some t
          \<and> termDocs (snd (reportViolation sink now me description sev tid d))
              = save term_id (t\<lparr>violations := violations t @ [v]\<rparr>) (termDocs d)"
      then obtain t v where n: "findById term_id tid (termDocs d) = Some t"
          "termDocs (snd (reportViolation sink now me description sev tid d))
              = save term_id (t\<lparr>violations := violations t @ [v]\<rparr>) (termDocs d)"
        by blast
      have "term_inv d t" using old findById_Some [OF n(1)] by simp
      then have "term_inv d (t\<lparr>violations := violations t @ [v]\<rparr>)"
        by (simp add: term_inv_def term_ok_def)
      then show ?thesis using t' old n(2) ReportViolation by (auto dest!: set_save)
    qed
  next
    case (UpdateTerm me tid body)
    have "term_inv d (apply_term_update body t)" if "term_inv d t" for t
      using that by (simp add: apply_term_update_def term_inv_def term_ok_def list_all_iff)
    then show ?thesis
      using updateTerm_termDocs [of me tid body d] t' old UpdateTerm
      by (auto simp: findByIdAndUpdate_def split: if_splits)
  next
    case (DeleteTerm me tid)
    then show ?thesis
      using deleteTerm_termDocs [of me tid d] t' old
      by (auto simp: findByIdAndDelete_def)
  qed (use t' old in \<open>simp_all add: termDocs_unchanged\<close>)
qed

lemma handle_store_inv: "store_inv d \<Longrightarrow> store_inv (snd (handle q d))"
proof -
  assume inv: "store_inv d"
  have p: "pair_invariant (snd (handle q d))"
    using inv rel_effect_pair_invariant [OF handle_effect] by (simp add: store_inv_def)
  have "term_inv (snd (handle q d)) t" if "t \<in> set (termDocs (snd (handle q d)))" for t
    using term_inv_lift [OF handle_effect handle_terms [OF inv that]] .
  then show ?thesis using p by (simp add: store_inv_def list_all_iff)
qed

lemma reachable_store_inv: "store_inv (serve qs (empty_db us))"
proof (rule serve_induct_inv [where P = store_inv])
  show "store_inv (empty_db us)"
    by (simp add: store_inv_def pair_invariant_def empty_db_def)
qed (rule handle_store_inv)

lemma reachable_term_ok:
  assumes "findById term_id tid (termDocs (serve qs (empty_db us))) = Some t"
    and "findById rel_id (term_relationship t) (relationships (serve qs (empty_db us))) = Some r"
  shows "term_ok r t"
  using reachable_store_inv [of qs us] findById_Some [OF assms(1)] findById_Some [OF assms(2)]
  by (auto simp: store_inv_def term_inv_def list_all_iff)

text \<open>C5. For every term of a store reached from the empty one by requests (and for every term
  whose agreers so far are distinct parties and whose status agreed, if set, has two agreers
  behind it) and a party \<open>me\<close> of its relationship: when \<open>me\<close> already appears in agreedBy,
  \<^verbatim>\<open>agreeTerm\<close> is answered 400 "You have already agreed to this term" and the store is
  left as it was; otherwise exactly one entry for \<open>me\<close> is appended, and the status is agreed
  afterwards exactly when two distinct agreers are recorded (else it is unchanged).\<close>

theorem agreeTerm_once_per_party:
  assumes t: "findById term_id tid (termDocs d) = Some t"
    and r: "findById rel_id (term_relationship t) (relationships d) = Some r"
    and party: "is_party r me"
    and reach: "d = serve qs (empty_db us) \<or> term_ok r t"
  shows "(hasUserAgreed t me \<longrightarrow>
            agreeTerm sink now me fullName sig tid d = ((400, ''You have already agreed to this term''), d))
     \<and> (\<not> hasUserAgreed t me \<longrightarrow>
          (\<exists>t'. findById term_id tid (termDocs (snd (agreeTerm sink now me fullName sig tid d))) = Some t'
             \<and> agreedBy t' = agreedBy t @ [\<lparr>ag_user = me, agreedAt = now, signature = signature_of fullName sig\<rparr>]
             \<and> (term_status t' = Agreed) = (card (ag_user ` set (agreedBy t')) = 2)
             \<and> (term_status t' \<noteq> Agreed \<longrightarrow> term_status t' = term_status t)
             \<and> term_ok r t'))"
proof -
  have ok: "term_ok r t"
    using reach reachable_term_ok [of tid qs us t r] t r by blast
  have dup: "agreeTerm sink now me fullName sig tid d = ((400, ''You have already agreed to this term''), d)"
    if "hasUserAgreed t me"
    using t r party that by (simp add: agreeTerm_def)
  have fresh: "\<exists>t'. findById term_id tid (termDocs (snd (agreeTerm sink now me fullName sig tid d))) = Some t'
             \<and> agreedBy t' = agreedBy t @ [\<lparr>ag_user = me, agreedAt = now, signature = signature_of fullName sig\<rparr>]
             \<and> (term_status t' = Agreed) = (card (ag_user ` set (agreedBy t')) = 2)
             \<and> (term_status t' \<noteq> Agreed \<longrightarrow> term_status t' = term_status t)
             \<and> term_ok r t'"
    if new: "\<not> hasUserAgreed t me"
  proof -
    let ?as = "agreedBy t @ [\<lparr>ag_user = me, agreedAt = now, signature = signature_of fullName sig\<rparr>]"
    let ?t' = "t\<lparr>agreedBy := ?as,
                  term_status := (if 2 \<le> length (agreedBy t) + 1 then Agreed else term_status t)\<rparr>"
    have notin: "me \<notin> ag_user ` set (agreedBy t)"
      using new by (auto simp: hasUserAgreed_def list_ex_iff)
    have d: "distinct (map ag_user ?as)"
      using ok notin by (simp add: term_ok_def)
    have p: "list_all (\<lambda>a. is_party r (ag_user a)) ?as"
      using ok party by (simp add: term_ok_def)
    have "card (ag_user ` set ?as) = length (map ag_user ?as)"
      using distinct_card [OF d] by simp
    then have c: "card (ag_user ` set ?as) = length (agreedBy t) + 1" by simp
    have le: "card (ag_user ` set ?as) \<le> 2" using parties_card [OF p] .
    have st: "term_status t \<noteq> Agreed" if "\<not> 2 \<le> length (agreedBy t) + 1"
      using ok that by (auto simp: term_ok_def)
    have iff: "(term_status ?t' = Agreed) = (card (ag_user ` set (agreedBy ?t')) = 2)"
      using c le st by auto
    have ok': "term_ok r ?t'"
      using d p st by (auto simp: term_ok_def)
    show ?thesis
      using agreeTerm_saved(1) [OF t r party new, of sink now fullName sig] iff ok' st
      by (intro exI [of _ ?t']) auto
  qed
  show ?thesis using dup fresh by blast
qed

theorem agreeTerm_once_per_party_witness:
  "let d0 = (empty_db [])\<lparr>relationships := [demo_active], termDocs := [demo_term], next_oid := 4\<rparr>;
       d1 = snd (agreeTerm (\<lambda>n. True) 30 1 ''Ann A'' None 3 d0);
       d2 = snd (agreeTerm (\<lambda>n. True) 31 2 ''Bob B'' (Some ''B.'') 3 d1)
   in map_option (\<lambda>t. (map ag_user (agreedBy t), term_status t)) (findById term_id 3 (termDocs d1))
        = Some ([1], Proposed)
      \<and> agreeTerm (\<lambda>n. True) 32 1 ''Ann A'' None 3 d1 = ((400, ''You have already agreed to this term''), d1)
      \<and> map_option (\<lambda>t. (map ag_user (agreedBy t), term_status t)) (findById term_id 3 (termDocs d2))
        = Some ([1, 2], Agreed)"
proof -
  let ?d0 = "(empty_db [])\<lparr>relationships := [demo_active], termDocs := [demo_term], next_oid := 4\<rparr>"
  let ?d1 = "snd (agreeTerm (\<lambda>n. True) 30 1 ''Ann A'' None 3 ?d0)"
  let ?d2 = "snd (agreeTerm (\<lambda>n. True) 31 2 ''Bob B'' (Some ''B.'') 3 ?d1)"
  let ?t1 = "demo_term\<lparr>agreedBy := [\<lparr>ag_user = 1, agreedAt = 30, signature = ''Ann A''\<rparr>]\<rparr>"
  have d1: "?d1 = ?d0\<lparr>termDocs := [?t1],
      notifications := [\<lparr>recipient = 2, sender = 1, n_type = ''term_agreed'',
                      n_category = ''relationship'', actionRequired = False, actions = [],
                      metadata = [(''termId'', 3), (''relationshipId'', 0)]\<rparr>]\<rparr>"
    by (simp add: agreeTerm_def findById_def demo_term_def demo_active_def new_relationship_def
        is_party_def hasUserAgreed_def await_create_def Notification_create_def save_def
        other_party_def empty_db_def signature_of_def)
  have h1: "findById term_id 3 (termDocs ?d1) = Some ?t1"
    unfolding d1 by (simp add: findById_def demo_term_def)
  have h2: "findById rel_id (term_relationship ?t1) (relationships ?d1) = Some demo_active"
    unfolding d1 by (simp add: findById_def demo_term_def demo_active_def new_relationship_def)
  have h3: "is_party demo_active 1" "is_party demo_active 2"
    by (simp_all add: is_party_def demo_active_def new_relationship_def)
  have h4: "term_ok demo_active ?t1"
    using h3 by (simp add: term_ok_def demo_term_def)
  have a1: "hasUserAgreed ?t1 1" and a2: "\<not> hasUserAgreed ?t1 2"
    by (simp_all add: hasUserAgreed_def)
  have w1: "agreeTerm (\<lambda>n. True) 32 1 ''Ann A'' None 3 ?d1 = ((400, ''You have already agreed to this term''), ?d1)"
    using agreeTerm_once_per_party [OF h1 h2 h3(1) disjI2 [OF h4], of "\<lambda>n. True" 32 "''Ann A''" None] a1
    by blast
  obtain t' where t': "findById term_id 3 (termDocs ?d2) = Some t'"
      "agreedBy t' = agreedBy ?t1 @ [\<lparr>ag_user = 2, agreedAt = 31, signature = signature_of ''Bob B'' (Some ''B.'')\<rparr>]"
      "(term_status t' = Agreed) = (card (ag_user ` set (agreedBy t')) = 2)"
    using agreeTerm_once_per_party [OF h1 h2 h3(2) disjI2 [OF h4], of "\<lambda>n. True" 31 "''Bob B''" "Some ''B.''"] a2
    by blast
  have "card (ag_user ` set (agreedBy t')) = 2" unfolding t'(2) by simp
  then have w2: "map_option (\<lambda>t. (map ag_user (agreedBy t), term_status t)) (findById term_id 3 (termDocs ?d2))
        = Some ([1, 2], Agreed)"
    using t' by simp
  have w0: "map_option (\<lambda>t. (map ag_user (agreedBy t), term_status t)) (findById term_id 3 (termDocs ?d1))
        = Some ([1], Proposed)"
    using h1 by (simp add: demo_term_def)
  show ?thesis unfolding Let_def using w0 w1 w2 by blast
qed

section \<open>Trust impact of an activity\<close>






section \<open>Certificate numbers\<close>

lemma demo_number: "generate_certificateNumber 35 ''abcde'' = ''CERT-Z-ABCDE''"
  by (simp add: generate_certificateNumber_def toString36.simps digit36_def toUpperCase_def)

lemma demo_certificate_valid: "valid_certificate demo_certificate"
  by (simp add: valid_certificate_def demo_certificate_def related_kinds_def valid_title_def
      trim_def is_space_def certificate_types_def certificate_levels_def)

lemma generated_nonempty: "generate_certificateNumber ts rnd \<noteq> []"
  by (simp add: generate_certificateNumber_def toUpperCase_def)

lemma pre_save_numbered: "certificateNumber (pre_save ts rnd c) \<noteq> None"
  by (simp add: pre_save_def)

text \<open>C9 (as amended). A certificate gets its number in the save that issues it: the hook
  generates one from the clock and a random suffix when none is set, consults no existing
  number and never generates a second one. The unique index rejects a save whose number is
  taken (the issuance fails with a duplicate-key error), so a store with pairwise distinct
  numbers stays so. A number that is set is left as it is by every later save.\<close>

theorem certificate_numbers_unique_by_index:
  "(Certificate_save ts rnd c d = Inr d' \<and> distinct (map certificateNumber (certificates d))
      \<longrightarrow> distinct (map certificateNumber (certificates d'))
          \<and> certificates d' = certificates d @ [pre_save ts rnd c]
          \<and> certificateNumber (pre_save ts rnd c) \<noteq> None
          \<and> (certificateNumber c = None \<longrightarrow>
                certificateNumber (pre_save ts rnd c) = Some (generate_certificateNumber ts rnd)))
   \<and> (valid_certificate c \<and> certificateNumber c = None
       \<and> Some (generate_certificateNumber ts rnd) \<in> set (map certificateNumber (certificates d))
      \<longrightarrow> Certificate_save ts rnd c d = Inl DuplicateKey)
   \<and> (certificateNumber c = Some n \<and> n \<noteq> [] \<longrightarrow> pre_save ts' rnd' c = c)
   \<and> (Certificate_resave ts' rnd' c d = Inr d' \<and> certificateNumber c = Some n \<and> n \<noteq> []
      \<longrightarrow> certificates d' = save cert_id c (certificates d))
   \<and> generate_certificateNumber ts rnd \<noteq> []"
proof -
  have a: "distinct (map certificateNumber (certificates d'))
          \<and> certificates d' = certificates d @ [pre_save ts rnd c]
          \<and> certificateNumber (pre_save ts rnd c) \<noteq> None
          \<and> (certificateNumber c = None \<longrightarrow>
                certificateNumber (pre_save ts rnd c) = Some (generate_certificateNumber ts rnd))"
    if "Certificate_save ts rnd c d = Inr d'" "distinct (map certificateNumber (certificates d))"
    using that pre_save_numbered [of ts rnd c]
    by (auto simp: Certificate_save_def Let_def pre_save_def split: if_splits)
  have b: "Certificate_save ts rnd c d = Inl DuplicateKey"
    if "valid_certificate c" "certificateNumber c = None"
      "Some (generate_certificateNumber ts rnd) \<in> set (map certificateNumber (certificates d))"
    using that by (simp add: Certificate_save_def pre_save_def)
  have c: "pre_save ts' rnd' c = c" if "certificateNumber c = Some n" "n \<noteq> []"
    using that by (simp add: pre_save_def)
  have e: "certificates d' = save cert_id c (certificates d)"
    if "Certificate_resave ts' rnd' c d = Inr d'" "certificateNumber c = Some n" "n \<noteq> []"
    using that c by (auto simp: Certificate_resave_def Let_def split: if_splits)
  show ?thesis using a b c e generated_nonempty by blast
qed

text \<open>C9 as stated fails: when the generated number is taken, the save is rejected by the
  unique index; nothing compares the number with the stored ones beforehand and nothing
  generates a second one.\<close>

theorem certificate_number_collision_not_retried:
  "let d = (empty_db [])\<lparr>certificates := [demo_certificate\<lparr>certificateNumber := Some ''CERT-Z-ABCDE''\<rparr>]\<rparr>
   in pre_save 35 ''abcde'' (demo_certificate\<lparr>cert_id := 6\<rparr>)
        = demo_certificate\<lparr>cert_id := 6, certificateNumber := Some ''CERT-Z-ABCDE''\<rparr>
      \<and> Certificate_save 35 ''abcde'' (demo_certificate\<lparr>cert_id := 6\<rparr>) d = Inl DuplicateKey"
  using demo_certificate_valid
  by (simp add: Certificate_save_def pre_save_def demo_number demo_certificate_def
      valid_certificate_def empty_db_def)

theorem certificate_numbers_unique_by_index_witness:
  "let d = (empty_db [])\<lparr>certificates := [demo_certificate\<lparr>certificateNumber := Some ''CERT-Z-ABCDE''\<rparr>]\<rparr>;
       d' = d\<lparr>certificates := certificates d
                @ [demo_certificate\<lparr>cert_id := 6, certificateNumber := Some ''CERT-10-ABCDE''\<rparr>]\<rparr>
   in Certificate_save 36 ''abcde'' (demo_certificate\<lparr>cert_id := 6\<rparr>) d = Inr d'
      \<and> distinct (map certificateNumber (certificates d'))"
proof -
  let ?d = "(empty_db [])\<lparr>certificates := [demo_certificate\<lparr>certificateNumber := Some ''CERT-Z-ABCDE''\<rparr>]\<rparr>"
  let ?d' = "?d\<lparr>certificates := certificates ?d
                @ [demo_certificate\<lparr>cert_id := 6, certificateNumber := Some ''CERT-10-ABCDE''\<rparr>]\<rparr>"
  have n: "generate_certificateNumber 36 ''abcde'' = ''CERT-10-ABCDE''"
    by (simp add: generate_certificateNumber_def toString36.simps digit36_def toUpperCase_def)
  have v: "valid_certificate (demo_certificate\<lparr>cert_id := 6\<rparr>)"
    using demo_certificate_valid by (simp add: valid_certificate_def)
  have s: "Certificate_save 36 ''abcde'' (demo_certificate\<lparr>cert_id := 6\<rparr>) ?d = Inr ?d'"
    using v by (simp add: Certificate_save_def pre_save_def n demo_certificate_def empty_db_def)
  have h: "distinct (map certificateNumber (certificates ?d))" by simp
  show ?thesis
    using certificate_numbers_unique_by_index [of 36 "''abcde''" "demo_certificate\<lparr>cert_id := 6\<rparr>" ?d ?d'] s h
    unfolding Let_def by blast
qed

section \<open>Dependent entities and the relationship status\<close>

lemma findById_with_status:
  "findById rel_id i (map (\<lambda>x. x\<lparr>rel_status := s\<rparr>) rs)
     = map_option (\<lambda>x. x\<lparr>rel_status := s\<rparr>) (findById rel_id i rs)"
  unfolding findById_def by (induction rs) auto

lemma with_status_simps:
  "termDocs (with_status s d) = termDocs d" "milestones (with_status s d) = milestones d"
  "activities (with_status s d) = activities d" "certificates (with_status s d) = certificates d"
  "next_oid (with_status s d) = next_oid d"
  "findById rel_id i (relationships (with_status s d))
     = map_option (\<lambda>x. x\<lparr>rel_status := s\<rparr>) (findById rel_id i (relationships d))"
  by (simp_all add: with_status_def findById_with_status)

lemma findByIdAndUpdate_with_status:
  "findByIdAndUpdate rel_id i inc_milestonesAchieved (map (\<lambda>x. x\<lparr>rel_status := s\<rparr>) rs)
     = map (\<lambda>x. x\<lparr>rel_status := s\<rparr>) (findByIdAndUpdate rel_id i inc_milestonesAchieved rs)"
  unfolding findByIdAndUpdate_def inc_milestonesAchieved_def by (induction rs) auto

lemma with_status_update:
  "(with_status s d)\<lparr>termDocs := ts\<rparr> = with_status s (d\<lparr>termDocs := ts\<rparr>)"
  "(with_status s d)\<lparr>milestones := ms\<rparr> = with_status s (d\<lparr>milestones := ms\<rparr>)"
  "(with_status s d)\<lparr>activities := as\<rparr> = with_status s (d\<lparr>activities := as\<rparr>)"
  "(with_status s d)\<lparr>notifications := ns\<rparr> = with_status s (d\<lparr>notifications := ns\<rparr>)"
  "notifications (with_status s d) = notifications d"
  by (simp_all add: with_status_def)

lemma party_with_status:
  "is_party (r\<lparr>rel_status := s\<rparr>) me = is_party r me"
  "other_party (r\<lparr>rel_status := s\<rparr>) me = other_party r me"
  by (simp_all add: is_party_def other_party_def)

lemma await_create_with_status:
  "(\<And>d'. k (with_status s d') = (fst (k d'), with_status s (snd (k d'))))
   \<Longrightarrow> await_create sink n err (with_status s d) k
       = (fst (await_create sink n err d k), with_status s (snd (await_create sink n err d k)))"
  by (simp add: await_create_def Notification_create_def with_status_update)

lemma agreeTerm_with_status:
  "agreeTerm sink now me fullName sig tid (with_status s d)
     = (fst (agreeTerm sink now me fullName sig tid d),
        with_status s (snd (agreeTerm sink now me fullName sig tid d)))"
proof (cases "findById term_id tid (termDocs d)")
  case None
  then show ?thesis by (simp add: agreeTerm_def with_status_simps)
next
  case t: (Some t)
  show ?thesis
  proof (cases "findById rel_id (term_relationship t) (relationships d)")
    case None
    then show ?thesis using t by (simp add: agreeTerm_def with_status_simps)
  next
    case (Some r)
    then show ?thesis using t
      by (simp add: agreeTerm_def with_status_simps with_status_update party_with_status
          await_create_with_status Let_def)
  qed
qed

lemma reportViolation_with_status:
  "reportViolation sink now me description sev tid (with_status s d)
     = (fst (reportViolation sink now me description sev tid d),
        with_status s (snd (reportViolation sink now me description sev tid d)))"
proof (cases "findById term_id tid (termDocs d)")
  case None
  then show ?thesis by (simp add: reportViolation_def with_status_simps)
next
  case t: (Some t)
  show ?thesis
  proof (cases "findById rel_id (term_relationship t) (relationships d)")
    case None
    then show ?thesis using t by (simp add: reportViolation_def with_status_simps)
  next
    case (Some r)
    then show ?thesis using t
      by (simp add: reportViolation_def with_status_simps with_status_update party_with_status
          await_create_with_status Let_def)
  qed
qed

lemma addEvidence_with_status:
  "addEvidence me ty url description mid (with_status s d)
     = (fst (addEvidence me ty url description mid d),
        with_status s (snd (addEvidence me ty url description mid d)))"
proof (cases "findById ms_id mid (milestones d)")
  case None
  then show ?thesis by (simp add: addEvidence_def with_status_simps)
next
  case m: (Some m)
  show ?thesis
  proof (cases "findById rel_id (ms_relationship m) (relationships d)")
    case None
    then show ?thesis using m by (simp add: addEvidence_def with_status_simps)
  next
    case (Some r)
    then show ?thesis using m
      by (simp add: addEvidence_def with_status_simps with_status_update party_with_status)
  qed
qed

lemma addReaction_with_status:
  "addReaction me ty aid (with_status s d)
     = (fst (addReaction me ty aid d), with_status s (snd (addReaction me ty aid d)))"
proof (cases "findById act_id aid (activities d)")
  case None
  then show ?thesis by (simp add: addReaction_def with_status_simps)
next
  case a: (Some a)
  show ?thesis
  proof (cases "findById rel_id (act_relationship a) (relationships d)")
    case None
    then show ?thesis using a by (simp add: addReaction_def with_status_simps)
  next
    case (Some r)
    then show ?thesis using a
      by (simp add: addReaction_def with_status_simps with_status_update party_with_status Let_def)
  qed
qed

lemma addComment_with_status:
  "addComment me comment_text aid (with_status s d)
     = (fst (addComment me comment_text aid d), with_status s (snd (addComment me comment_text aid d)))"
proof (cases "findById act_id aid (activities d)")
  case None
  then show ?thesis by (simp add: addComment_def with_status_simps)
next
  case a: (Some a)
  show ?thesis
  proof (cases "findById rel_id (act_relationship a) (relationships d)")
    case None
    then show ?thesis using a by (simp add: addComment_def with_status_simps)
  next
    case (Some r)
    then show ?thesis using a
      by (simp add: addComment_def with_status_simps with_status_update party_with_status Let_def)
  qed
qed

lemma completeMilestone_with_status:
  "completeMilestone sink now random me mid (with_status s d)
     = (fst (completeMilestone sink now random me mid d),
        with_status s (snd (completeMilestone sink now random me mid d)))"
proof (cases "findById ms_id mid (milestones d)")
  case None
  then show ?thesis by (simp add: completeMilestone_def with_status_simps)
next
  case m: (Some m)
  show ?thesis
  proof (cases "findById rel_id (ms_relationship m) (relationships d)")
    case None
    then show ?thesis using m by (simp add: completeMilestone_def with_status_simps)
  next
    case (Some r)
    have rel: "relationships (with_status s x) = map (\<lambda>x. x\<lparr>rel_status := s\<rparr>) (relationships x)" for x
      by (simp add: with_status_def)
    have upd: "(with_status s x)\<lparr>relationships := map (\<lambda>x. x\<lparr>rel_status := s\<rparr>) rs\<rparr>
        = with_status s (x\<lparr>relationships := rs\<rparr>)" for x rs
      by (simp add: with_status_def)
    have ach: "milestone_achieved me x (r\<lparr>rel_status := s\<rparr>) = milestone_achieved me x r" for x
      by (simp add: milestone_achieved_def party_with_status)
    have fr: "findById rel_id (ms_relationship m) (map (\<lambda>x. x\<lparr>rel_status := s\<rparr>) (relationships d))
        = Some (r\<lparr>rel_status := s\<rparr>)"
      using Some by (simp add: findById_with_status)
    from Some m show ?thesis
      by (simp add: completeMilestone_def with_status_simps(1-5) with_status_update party_with_status
          await_create_with_status Let_def Certificate_save_def milestone_certificate_invalid
          findByIdAndUpdate_with_status rel fr upd ach)
  qed
qed

lemma status_blind_result:
  "status_blind q \<Longrightarrow> handle q (with_status s d) = (fst (handle q d), with_status s (snd (handle q d)))"
  by (cases q)
    (simp_all add: agreeTerm_with_status reportViolation_with_status completeMilestone_with_status
      addEvidence_with_status addReaction_with_status addComment_with_status)


text \<open>C10. Take a relationship in any status whatever (ended, archived, requested_breakup
  and pending included) and a working notification sink. For a party \<open>me\<close> of it,
  \<^verbatim>\<open>agreeTerm\<close> (not yet agreed), \<^verbatim>\<open>reportViolation\<close> (severity in its enum),
  \<^verbatim>\<open>completeMilestone\<close> (milestone not completed, no certificate reward),
  \<^verbatim>\<open>addEvidence\<close> (type in its enum), \<^verbatim>\<open>addReaction\<close> (type in its enum) and
  \<^verbatim>\<open>addComment\<close> (text of 1 to 500 characters once trimmed) are answered 200 and leave the
  store with exactly their write: the agreement, the violation, the completed milestone and
  the incremented counter, the evidence, the reaction, the comment, and the notification of
  the three that send one. For anyone else the six are answered 403 and write nothing.
  \<^verbatim>\<open>createTerm\<close>, \<^verbatim>\<open>createMilestone\<close> and \<^verbatim>\<open>createActivity\<close> by a party are answered 400
  and write nothing unless the status is active. Whatever the request, each of the six
  mutations gives the same answer and makes the same change to the store when every
  relationship is moved to another status.\<close>

theorem dependent_mutations_ignore_status:
  assumes r: "findById rel_id rid (relationships d) = Some r"
    and sink: "\<forall>n. sink n"
  shows
    "(findById term_id tid (termDocs d) = Some t \<and> term_relationship t = rid
         \<and> (initiator r = me \<or> partner r = me) \<and> me \<notin> set (map ag_user (agreedBy t))
      \<longrightarrow> agreeTerm sink now me fullName sig tid d
          = ((200, ''Term agreement recorded successfully''),
             d\<lparr>termDocs :=
                  map (\<lambda>x. if term_id x = tid
                            then t\<lparr>agreedBy := agreedBy t @
                                     [\<lparr>ag_user = me, agreedAt = now,
                                       signature = signature_of fullName sig\<rparr>],
                                   term_status := (if agreedBy t = [] then term_status t else Agreed)\<rparr>
                            else x) (termDocs d),
                notifications := notifications d @
                  [\<lparr>recipient = (if initiator r = me then partner r else initiator r), sender = me,
                    n_type = ''term_agreed'', n_category = ''relationship'', actionRequired = False,
                    actions = [], metadata = [(''termId'', tid), (''relationshipId'', rid)]\<rparr>]\<rparr>))
     \<and> (findById term_id tid (termDocs d) = Some t \<and> term_relationship t = rid
         \<and> (initiator r = me \<or> partner r = me)
         \<and> (case sev of None \<Rightarrow> True | Some x \<Rightarrow> x \<in> set severities)
      \<longrightarrow> reportViolation sink now me description sev tid d
          = ((200, ''Violation reported successfully''),
             d\<lparr>termDocs :=
                  map (\<lambda>x. if term_id x = tid
                            then t\<lparr>violations := violations t @
                                     [\<lparr>reportedBy = me, v_description = description,
                                       severity = (case sev of None \<Rightarrow> ''minor'' | Some x \<Rightarrow> x),
                                       reportedAt = now, resolved = False\<rparr>]\<rparr>
                            else x) (termDocs d),
                notifications := notifications d @
                  [\<lparr>recipient = (if initiator r = me then partner r else initiator r), sender = me,
                    n_type = ''term_violated'', n_category = ''relationship'', actionRequired = True,
                    actions = [], metadata = [(''termId'', tid), (''relationshipId'', rid)]\<rparr>]\<rparr>))
     \<and> (findById ms_id mid (milestones d) = Some m \<and> ms_relationship m = rid
         \<and> (initiator r = me \<or> partner r = me)
         \<and> ms_status m \<noteq> Completed \<and> \<not> certificate (ms_rewards m)
      \<longrightarrow> completeMilestone sink now random me mid d
          = ((200, ''Milestone completed successfully''),
             d\<lparr>milestones :=
                  map (\<lambda>x. if ms_id x = mid
                            then m\<lparr>ms_status := Completed, completedDate := Some now,
                                   participants :=
                                     (if me \<in> set (map p_user (participants m)) then participants m
                                      else participants m @ [\<lparr>p_user = me, p_completedAt = now\<rparr>])\<rparr>
                            else x) (milestones d),
                relationships :=
                  map (\<lambda>x. if rel_id x = rid
                            then x\<lparr>stats := (stats x)\<lparr>milestonesAchieved :=
                                                         milestonesAchieved (stats x) + 1\<rparr>\<rparr>
                            else x) (relationships d),
                notifications := notifications d @
                  [\<lparr>recipient = (if initiator r = me then partner r else initiator r), sender = me,
                    n_type = ''milestone_achieved'', n_category = ''milestone'',
                    actionRequired = False, actions = [],
                    metadata = [(''milestoneId'', mid), (''relationshipId'', rid)]\<rparr>]\<rparr>))
     \<and> (findById ms_id mid (milestones d) = Some m \<and> ms_relationship m = rid
         \<and> (initiator r = me \<or> partner r = me)
         \<and> (case ety of None \<Rightarrow> True | Some x \<Rightarrow> x \<in> set evidence_types)
      \<longrightarrow> addEvidence me ety url description mid d
          = ((200, ''Evidence added successfully''),
             d\<lparr>milestones :=
                  map (\<lambda>x. if ms_id x = mid
                            then m\<lparr>evidences := evidences m @
                                     [\<lparr>ev_type = ety, ev_url = url, ev_description = description,
                                       uploadedBy = me\<rparr>]\<rparr>
                            else x) (milestones d)\<rparr>))
     \<and> (findById act_id aid (activities d) = Some a \<and> act_relationship a = rid
         \<and> (initiator r = me \<or> partner r = me)
         \<and> (case rty of None \<Rightarrow> True | Some x \<Rightarrow> x \<in> set reaction_types)
      \<longrightarrow> addReaction me rty aid d
          = ((200, ''Reaction added successfully''),
             d\<lparr>activities :=
                  map (\<lambda>x. if act_id x = aid
                            then a\<lparr>reactions := filter (\<lambda>x. re_user x \<noteq> me) (reactions a) @
                                     [\<lparr>re_user = me,
                                       re_type = (case rty of None \<Rightarrow> ''like'' | Some x \<Rightarrow> x)\<rparr>]\<rparr>
                            else x) (activities d)\<rparr>))
     \<and> (findById act_id aid (activities d) = Some a \<and> act_relationship a = rid
         \<and> (initiator r = me \<or> partner r = me)
         \<and> trim comment_text \<noteq> [] \<and> length (trim comment_text) \<le> 500
      \<longrightarrow> addComment me (Some comment_text) aid d
          = ((200, ''Comment added successfully''),
             d\<lparr>activities :=
                  map (\<lambda>x. if act_id x = aid
                            then a\<lparr>comments := comments a @ [\<lparr>co_user = me, co_text = trim comment_text\<rparr>]\<rparr>
                            else x) (activities d)\<rparr>))
     \<and> (findById term_id tid (termDocs d) = Some t \<and> term_relationship t = rid
         \<and> initiator r \<noteq> me \<and> partner r \<noteq> me
      \<longrightarrow> agreeTerm sink now me fullName sig tid d = ((403, ''Access denied''), d)
          \<and> reportViolation sink now me description sev tid d = ((403, ''Access denied''), d))
     \<and> (findById ms_id mid (milestones d) = Some m \<and> ms_relationship m = rid
         \<and> initiator r \<noteq> me \<and> partner r \<noteq> me
      \<longrightarrow> completeMilestone sink now random me mid d = ((403, ''Access denied''), d)
          \<and> addEvidence me ety url description mid d = ((403, ''Access denied''), d))
     \<and> (findById act_id aid (activities d) = Some a \<and> act_relationship a = rid
         \<and> initiator r \<noteq> me \<and> partner r \<noteq> me \<and> trim comment_text \<noteq> []
      \<longrightarrow> addReaction me rty aid d = ((403, ''Access denied''), d)
          \<and> addComment me (Some comment_text) aid d = ((403, ''Access denied''), d))
     \<and> ((initiator r = me \<or> partner r = me) \<and> rel_status r \<noteq> Active
         \<and> createTermValidation tb \<and> ct_relationshipId tb = rid
      \<longrightarrow> createTerm sink me tb d = ((400, ''Can only create terms for active relationships''), d))
     \<and> ((initiator r = me \<or> partner r = me) \<and> rel_status r \<noteq> Active
         \<and> createMilestoneValidation mb \<and> cm_relationshipId mb = rid
      \<longrightarrow> createMilestone sink me mb d
          = ((400, ''Can only create milestones for active relationships''), d))
     \<and> ((initiator r = me \<or> partner r = me) \<and> rel_status r \<noteq> Active
         \<and> createActivityValidation ab \<and> ca_relationshipId ab = rid
      \<longrightarrow> createActivity sink now me ab d
          = ((400, ''Can only create activities for active relationships''), d))
     \<and> (status_blind q
      \<longrightarrow> handle q (with_status s d) = (fst (handle q d), with_status s (snd (handle q d))))"
proof -
  have rid: "rel_id r = rid" using findById_Some [OF r] by simp
  have agree: "findById term_id tid (termDocs d) = Some t \<and> term_relationship t = rid
         \<and> (initiator r = me \<or> partner r = me) \<and> me \<notin> set (map ag_user (agreedBy t))
      \<longrightarrow> agreeTerm sink now me fullName sig tid d
          = ((200, ''Term agreement recorded successfully''),
             d\<lparr>termDocs :=
                  map (\<lambda>x. if term_id x = tid
                            then t\<lparr>agreedBy := agreedBy t @
                                     [\<lparr>ag_user = me, agreedAt = now,
                                       signature = signature_of fullName sig\<rparr>],
                                   term_status := (if agreedBy t = [] then term_status t else Agreed)\<rparr>
                            else x) (termDocs d),
                notifications := notifications d @
                  [\<lparr>recipient = (if initiator r = me then partner r else initiator r), sender = me,
                    n_type = ''term_agreed'', n_category = ''relationship'', actionRequired = False,
                    actions = [], metadata = [(''termId'', tid), (''relationshipId'', rid)]\<rparr>]\<rparr>)"
  proof (intro impI, elim conjE)
    assume h: "findById term_id tid (termDocs d) = Some t" "term_relationship t = rid"
      "initiator r = me \<or> partner r = me" "me \<notin> set (map ag_user (agreedBy t))"
    have tid: "term_id t = tid" using findById_Some [OF h(1)] by simp
    have p: "is_party r me" using h(3) by (auto simp: is_party_def)
    have n: "\<not> hasUserAgreed t me" using h(4) by (auto simp: hasUserAgreed_def list_ex_iff)
    show "agreeTerm sink now me fullName sig tid d
          = ((200, ''Term agreement recorded successfully''),
             d\<lparr>termDocs :=
                  map (\<lambda>x. if term_id x = tid
                            then t\<lparr>agreedBy := agreedBy t @
                                     [\<lparr>ag_user = me, agreedAt = now,
                                       signature = signature_of fullName sig\<rparr>],
                                   term_status := (if agreedBy t = [] then term_status t else Agreed)\<rparr>
                            else x) (termDocs d),
                notifications := notifications d @
                  [\<lparr>recipient = (if initiator r = me then partner r else initiator r), sender = me,
                    n_type = ''term_agreed'', n_category = ''relationship'', actionRequired = False,
                    actions = [], metadata = [(''termId'', tid), (''relationshipId'', rid)]\<rparr>]\<rparr>)"
    proof (cases "agreedBy t = []")
      case True
      then show ?thesis using h(1,2) r p n sink tid rid
        by (simp add: agreeTerm_def await_create_def Notification_create_def Let_def save_def
            other_party_def)
    next
      case False
      then have "Suc 0 \<le> length (agreedBy t)" by (cases "agreedBy t") simp_all
      then show ?thesis using False h(1,2) r p n sink tid rid
        by (simp add: agreeTerm_def await_create_def Notification_create_def Let_def save_def
            other_party_def)
    qed
  qed
  have report: "findById term_id tid (termDocs d) = Some t \<and> term_relationship t = rid
         \<and> (initiator r = me \<or> partner r = me)
         \<and> (case sev of None \<Rightarrow> True | Some x \<Rightarrow> x \<in> set severities)
      \<longrightarrow> reportViolation sink now me description sev tid d
          = ((200, ''Violation reported successfully''),
             d\<lparr>termDocs :=
                  map (\<lambda>x. if term_id x = tid
                            then t\<lparr>violations := violations t @
                                     [\<lparr>reportedBy = me, v_description = description,
                                       severity = (case sev of None \<Rightarrow> ''minor'' | Some x \<Rightarrow> x),
                                       reportedAt = now, resolved = False\<rparr>]\<rparr>
                            else x) (termDocs d),
                notifications := notifications d @
                  [\<lparr>recipient = (if initiator r = me then partner r else initiator r), sender = me,
                    n_type = ''term_violated'', n_category = ''relationship'', actionRequired = True,
                    actions = [], metadata = [(''termId'', tid), (''relationshipId'', rid)]\<rparr>]\<rparr>)"
  proof (intro impI, elim conjE)
    assume h: "findById term_id tid (termDocs d) = Some t" "term_relationship t = rid"
      "initiator r = me \<or> partner r = me"
      "case sev of None \<Rightarrow> True | Some x \<Rightarrow> x \<in> set severities"
    have tid: "term_id t = tid" using findById_Some [OF h(1)] by simp
    have p: "is_party r me" using h(3) by (auto simp: is_party_def)
    have sv: "(case sev of None \<Rightarrow> ''minor'' | Some x \<Rightarrow> x) \<in> set severities"
      using h(4) by (cases sev) (simp_all add: severities_def)
    show "reportViolation sink now me description sev tid d
          = ((200, ''Violation reported successfully''),
             d\<lparr>termDocs :=
                  map (\<lambda>x. if term_id x = tid
                            then t\<lparr>violations := violations t @
                                     [\<lparr>reportedBy = me, v_description = description,
                                       severity = (case sev of None \<Rightarrow> ''minor'' | Some x \<Rightarrow> x),
                                       reportedAt = now, resolved = False\<rparr>]\<rparr>
                            else x) (termDocs d),
                notifications := notifications d @
                  [\<lparr>recipient = (if initiator r = me then partner r else initiator r), sender = me,
                    n_type = ''term_violated'', n_category = ''relationship'', actionRequired = True,
                    actions = [], metadata = [(''termId'', tid), (''relationshipId'', rid)]\<rparr>]\<rparr>)"
      using h(1,2) r p sv sink tid rid
      by (simp add: reportViolation_def await_create_def Notification_create_def Let_def save_def
          other_party_def)
  qed
  have complete: "findById ms_id mid (milestones d) = Some m \<and> ms_relationship m = rid
         \<and> (initiator r = me \<or> partner r = me)
         \<and> ms_status m \<noteq> Completed \<and> \<not> certificate (ms_rewards m)
      \<longrightarrow> completeMilestone sink now random me mid d
          = ((200, ''Milestone completed successfully''),
             d\<lparr>milestones :=
                  map (\<lambda>x. if ms_id x = mid
                            then m\<lparr>ms_status := Completed, completedDate := Some now,
                                   participants :=
                                     (if me \<in> set (map p_user (participants m)) then participants m
                                      else participants m @ [\<lparr>p_user = me, p_completedAt = now\<rparr>])\<rparr>
                            else x) (milestones d),
                relationships :=
                  map (\<lambda>x. if rel_id x = rid
                            then x\<lparr>stats := (stats x)\<lparr>milestonesAchieved :=
                                                         milestonesAchieved (stats x) + 1\<rparr>\<rparr>
                            else x) (relationships d),
                notifications := notifications d @
                  [\<lparr>recipient = (if initiator r = me then partner r else initiator r), sender = me,
                    n_type = ''milestone_achieved'', n_category = ''milestone'',
                    actionRequired = False, actions = [],
                    metadata = [(''milestoneId'', mid), (''relationshipId'', rid)]\<rparr>]\<rparr>)"
  proof (intro impI, elim conjE)
    assume h: "findById ms_id mid (milestones d) = Some m" "ms_relationship m = rid"
      "initiator r = me \<or> partner r = me" "ms_status m \<noteq> Completed"
      "\<not> certificate (ms_rewards m)"
    have mid: "ms_id m = mid" using findById_Some [OF h(1)] by simp
    have p: "is_party r me" using h(3) by (auto simp: is_party_def)
    have fnd: "(find (\<lambda>p. p_user p = me) (participants m) = None)
        = (me \<notin> set (map p_user (participants m)))"
      by (auto simp: find_None_iff)
    have c: "complete m me now
        = m\<lparr>ms_status := Completed, completedDate := Some now,
            participants :=
              (if me \<in> set (map p_user (participants m)) then participants m
               else participants m @ [\<lparr>p_user = me, p_completedAt = now\<rparr>])\<rparr>"
      using fnd by (simp add: complete_def Let_def)
    have nc: "\<not> certificate (ms_rewards (complete m me now))"
      using h(5) by (simp add: complete_def Let_def)
    have cid: "ms_id (complete m me now) = mid" using mid by (simp add: complete_def Let_def)
    have s1: "save ms_id (complete m me now) (milestones d)
        = map (\<lambda>x. if ms_id x = mid then complete m me now else x) (milestones d)"
      using cid by (simp add: save_def)
    have s2: "findByIdAndUpdate rel_id rid inc_milestonesAchieved (relationships d)
        = map (\<lambda>x. if rel_id x = rid
                  then x\<lparr>stats := (stats x)\<lparr>milestonesAchieved :=
                                               milestonesAchieved (stats x) + 1\<rparr>\<rparr>
                  else x) (relationships d)"
      by (simp add: findByIdAndUpdate_def inc_milestonesAchieved_def)
    have s3: "milestone_achieved me (complete m me now) r
        = \<lparr>recipient = (if initiator r = me then partner r else initiator r), sender = me,
           n_type = ''milestone_achieved'', n_category = ''milestone'',
           actionRequired = False, actions = [],
           metadata = [(''milestoneId'', mid), (''relationshipId'', rid)]\<rparr>"
      using cid rid by (simp add: milestone_achieved_def other_party_def)
    have res: "completeMilestone sink now random me mid d
          = ((200, ''Milestone completed successfully''),
             d\<lparr>milestones := save ms_id (complete m me now) (milestones d),
                relationships := findByIdAndUpdate rel_id rid inc_milestonesAchieved (relationships d),
                notifications := notifications d @ [milestone_achieved me (complete m me now) r]\<rparr>)"
      using h(1,2,4) r p nc sink rid
      by (simp add: completeMilestone_def await_create_def Notification_create_def Let_def)
    show "completeMilestone sink now random me mid d
          = ((200, ''Milestone completed successfully''),
             d\<lparr>milestones :=
                  map (\<lambda>x. if ms_id x = mid
                            then m\<lparr>ms_status := Completed, completedDate := Some now,
                                   participants :=
                                     (if me \<in> set (map p_user (participants m)) then participants m
                                      else participants m @ [\<lparr>p_user = me, p_completedAt = now\<rparr>])\<rparr>
                            else x) (milestones d),
                relationships :=
                  map (\<lambda>x. if rel_id x = rid
                            then x\<lparr>stats := (stats x)\<lparr>milestonesAchieved :=
                                                         milestonesAchieved (stats x) + 1\<rparr>\<rparr>
                            else x) (relationships d),
                notifications := notifications d @
                  [\<lparr>recipient = (if initiator r = me then partner r else initiator r), sender = me,
                    n_type = ''milestone_achieved'', n_category = ''milestone'',
                    actionRequired = False, actions = [],
                    metadata = [(''milestoneId'', mid), (''relationshipId'', rid)]\<rparr>]\<rparr>)"
      by (simp only: res s1 s2 s3) (simp only: c)
  qed
  have evid: "findById ms_id mid (milestones d) = Some m \<and> ms_relationship m = rid
         \<and> (initiator r = me \<or> partner r = me)
         \<and> (case ety of None \<Rightarrow> True | Some x \<Rightarrow> x \<in> set evidence_types)
      \<longrightarrow> addEvidence me ety url description mid d
          = ((200, ''Evidence added successfully''),
             d\<lparr>milestones :=
                  map (\<lambda>x. if ms_id x = mid
                            then m\<lparr>evidences := evidences m @
                                     [\<lparr>ev_type = ety, ev_url = url, ev_description = description,
                                       uploadedBy = me\<rparr>]\<rparr>
                            else x) (milestones d)\<rparr>)"
  proof (intro impI, elim conjE)
    assume h: "findById ms_id mid (milestones d) = Some m" "ms_relationship m = rid"
      "initiator r = me \<or> partner r = me"
      "case ety of None \<Rightarrow> True | Some x \<Rightarrow> x \<in> set evidence_types"
    have mid: "ms_id m = mid" using findById_Some [OF h(1)] by simp
    have p: "is_party r me" using h(3) by (auto simp: is_party_def)
    have ok: "\<not> (case ety of None \<Rightarrow> False | Some x \<Rightarrow> x \<notin> set evidence_types)"
      using h(4) by (cases ety) simp_all
    show "addEvidence me ety url description mid d
          = ((200, ''Evidence added successfully''),
             d\<lparr>milestones :=
                  map (\<lambda>x. if ms_id x = mid
                            then m\<lparr>evidences := evidences m @
                                     [\<lparr>ev_type = ety, ev_url = url, ev_description = description,
                                       uploadedBy = me\<rparr>]\<rparr>
                            else x) (milestones d)\<rparr>)"
      using h(1,2) r p ok mid by (simp add: addEvidence_def save_def)
  qed
  have react: "findById act_id aid (activities d) = Some a \<and> act_relationship a = rid
         \<and> (initiator r = me \<or> partner r = me)
         \<and> (case rty of None \<Rightarrow> True | Some x \<Rightarrow> x \<in> set reaction_types)
      \<longrightarrow> addReaction me rty aid d
          = ((200, ''Reaction added successfully''),
             d\<lparr>activities :=
                  map (\<lambda>x. if act_id x = aid
                            then a\<lparr>reactions := filter (\<lambda>x. re_user x \<noteq> me) (reactions a) @
                                     [\<lparr>re_user = me,
                                       re_type = (case rty of None \<Rightarrow> ''like'' | Some x \<Rightarrow> x)\<rparr>]\<rparr>
                            else x) (activities d)\<rparr>)"
  proof (intro impI, elim conjE)
    assume h: "findById act_id aid (activities d) = Some a" "act_relationship a = rid"
      "initiator r = me \<or> partner r = me"
      "case rty of None \<Rightarrow> True | Some x \<Rightarrow> x \<in> set reaction_types"
    have aid: "act_id a = aid" using findById_Some [OF h(1)] by simp
    have p: "is_party r me" using h(3) by (auto simp: is_party_def)
    have ok: "(case rty of None \<Rightarrow> ''like'' | Some x \<Rightarrow> x) \<in> set reaction_types"
      using h(4) by (cases rty) (simp_all add: reaction_types_def)
    show "addReaction me rty aid d
          = ((200, ''Reaction added successfully''),
             d\<lparr>activities :=
                  map (\<lambda>x. if act_id x = aid
                            then a\<lparr>reactions := filter (\<lambda>x. re_user x \<noteq> me) (reactions a) @
                                     [\<lparr>re_user = me,
                                       re_type = (case rty of None \<Rightarrow> ''like'' | Some x \<Rightarrow> x)\<rparr>]\<rparr>
                            else x) (activities d)\<rparr>)"
      using h(1,2) r p ok aid
      by (simp add: addReaction_def Let_def save_def Activity_addReaction_def)
  qed
  have comm: "findById act_id aid (activities d) = Some a \<and> act_relationship a = rid
         \<and> (initiator r = me \<or> partner r = me)
         \<and> trim comment_text \<noteq> [] \<and> length (trim comment_text) \<le> 500
      \<longrightarrow> addComment me (Some comment_text) aid d
          = ((200, ''Comment added successfully''),
             d\<lparr>activities :=
                  map (\<lambda>x. if act_id x = aid
                            then a\<lparr>comments := comments a @ [\<lparr>co_user = me, co_text = trim comment_text\<rparr>]\<rparr>
                            else x) (activities d)\<rparr>)"
  proof (intro impI, elim conjE)
    assume h: "findById act_id aid (activities d) = Some a" "act_relationship a = rid"
      "initiator r = me \<or> partner r = me" "trim comment_text \<noteq> []" "length (trim comment_text) \<le> 500"
    have aid: "act_id a = aid" using findById_Some [OF h(1)] by simp
    have p: "is_party r me" using h(3) by (auto simp: is_party_def)
    have ne: "comment_text \<noteq> []" using h(4) by (auto simp: trim_def)
    show "addComment me (Some comment_text) aid d
          = ((200, ''Comment added successfully''),
             d\<lparr>activities :=
                  map (\<lambda>x. if act_id x = aid
                            then a\<lparr>comments := comments a @ [\<lparr>co_user = me, co_text = trim comment_text\<rparr>]\<rparr>
                            else x) (activities d)\<rparr>)"
      using h(1,2,4,5) r p ne aid
      by (simp add: addComment_def Let_def save_def Activity_addComment_def)
  qed
  have deny_term: "findById term_id tid (termDocs d) = Some t \<and> term_relationship t = rid
         \<and> initiator r \<noteq> me \<and> partner r \<noteq> me
      \<longrightarrow> agreeTerm sink now me fullName sig tid d = ((403, ''Access denied''), d)
          \<and> reportViolation sink now me description sev tid d = ((403, ''Access denied''), d)"
    using r by (simp add: agreeTerm_def reportViolation_def is_party_def)
  have deny_ms: "findById ms_id mid (milestones d) = Some m \<and> ms_relationship m = rid
         \<and> initiator r \<noteq> me \<and> partner r \<noteq> me
      \<longrightarrow> completeMilestone sink now random me mid d = ((403, ''Access denied''), d)
          \<and> addEvidence me ety url description mid d = ((403, ''Access denied''), d)"
    using r by (simp add: completeMilestone_def addEvidence_def is_party_def)
  have deny_act: "findById act_id aid (activities d) = Some a \<and> act_relationship a = rid
         \<and> initiator r \<noteq> me \<and> partner r \<noteq> me \<and> trim comment_text \<noteq> []
      \<longrightarrow> addReaction me rty aid d = ((403, ''Access denied''), d)
          \<and> addComment me (Some comment_text) aid d = ((403, ''Access denied''), d)"
  proof (intro impI, elim conjE)
    assume h: "findById act_id aid (activities d) = Some a" "act_relationship a = rid"
      "initiator r \<noteq> me" "partner r \<noteq> me" "trim comment_text \<noteq> []"
    have ne: "comment_text \<noteq> []" using h(5) by (auto simp: trim_def)
    show "addReaction me rty aid d = ((403, ''Access denied''), d)
          \<and> addComment me (Some comment_text) aid d = ((403, ''Access denied''), d)"
      using h r ne by (simp add: addReaction_def addComment_def is_party_def)
  qed
  have ct: "(initiator r = me \<or> partner r = me) \<and> rel_status r \<noteq> Active
         \<and> createTermValidation tb \<and> ct_relationshipId tb = rid
      \<longrightarrow> createTerm sink me tb d = ((400, ''Can only create terms for active relationships''), d)"
    using r by (auto simp: createTerm_def includesUser_def)
  have cm: "(initiator r = me \<or> partner r = me) \<and> rel_status r \<noteq> Active
         \<and> createMilestoneValidation mb \<and> cm_relationshipId mb = rid
      \<longrightarrow> createMilestone sink me mb d
          = ((400, ''Can only create milestones for active relationships''), d)"
    using r by (auto simp: createMilestone_def includesUser_def)
  have ca: "(initiator r = me \<or> partner r = me) \<and> rel_status r \<noteq> Active
         \<and> createActivityValidation ab \<and> ca_relationshipId ab = rid
      \<longrightarrow> createActivity sink now me ab d
          = ((400, ''Can only create activities for active relationships''), d)"
    using r by (auto simp: createActivity_def includesUser_def)
  have blind: "status_blind q
      \<longrightarrow> handle q (with_status s d) = (fst (handle q d), with_status s (snd (handle q d)))"
    using status_blind_result by blast
  show ?thesis
    by (intro conjI agree report complete evid react comm deny_term deny_ms deny_act ct cm ca blind)
qed


lemma demo_ended_facts:
  "findById rel_id 0 (relationships demo_ended_db)
     = Some (demo_active\<lparr>rel_status := Ended, breakupRequestedBy := Some 1, endDate := Some 40\<rparr>)"
  "findById term_id 3 (termDocs demo_ended_db) = Some demo_term"
  "findById ms_id 1 (milestones demo_ended_db)
     = Some (demo_milestone\<lparr>ms_rewards := \<lparr>points = 0, certificate = False\<rparr>\<rparr>)"
  "findById act_id 4 (activities demo_ended_db)
     = Some \<lparr>act_id = 4, act_relationship = 0, act_createdBy = 1, act_title = ''Picnic'',
             act_type = ''date'', act_trustChange = 0, act_relationshipStrength = 0,
             reactions = [], comments = []\<rparr>"
  by (simp_all add: demo_ended_db_def empty_db_def findById_def demo_active_def new_relationship_def
      demo_term_def demo_milestone_def)

theorem dependent_mutations_ignore_status_witness:
  "map_option rel_status (findById rel_id 0 (relationships demo_ended_db)) = Some Ended
   \<and> fst (agreeTerm (\<lambda>n. True) 50 2 ''Bob B'' None 3 demo_ended_db)
       = (200, ''Term agreement recorded successfully'')
   \<and> map_option agreedBy
        (findById term_id 3 (termDocs (snd (agreeTerm (\<lambda>n. True) 50 2 ''Bob B'' None 3 demo_ended_db))))
       = Some [\<lparr>ag_user = 2, agreedAt = 50, signature = ''Bob B''\<rparr>]
   \<and> fst (completeMilestone (\<lambda>n. True) 50 ''abcde'' 2 1 demo_ended_db)
       = (200, ''Milestone completed successfully'')
   \<and> map_option ms_status
        (findById ms_id 1 (milestones (snd (completeMilestone (\<lambda>n. True) 50 ''abcde'' 2 1 demo_ended_db))))
       = Some Completed
   \<and> map_option (\<lambda>x. milestonesAchieved (stats x))
        (findById rel_id 0
           (relationships (snd (completeMilestone (\<lambda>n. True) 50 ''abcde'' 2 1 demo_ended_db))))
       = Some 1
   \<and> fst (addComment 2 (Some (CHR 0x0B # ''Lovely '')) 4 demo_ended_db)
       = (200, ''Comment added successfully'')
   \<and> map_option comments
        (findById act_id 4 (activities (snd (addComment 2 (Some (CHR 0x0B # ''Lovely '')) 4 demo_ended_db))))
       = Some [\<lparr>co_user = 2, co_text = ''Lovely''\<rparr>]
   \<and> addComment 7 (Some ''Lovely'') 4 demo_ended_db = ((403, ''Access denied''), demo_ended_db)
   \<and> createTerm (\<lambda>n. True) 2
        \<lparr>ct_relationshipId = 0, ct_title = ''Weekly call'', ct_description = ''Every week'',
         ct_category = ''communication'', ct_priority = None, ct_rest_valid = True\<rparr> demo_ended_db
       = ((400, ''Can only create terms for active relationships''), demo_ended_db)"
proof -
  let ?r = "demo_active\<lparr>rel_status := Ended, breakupRequestedBy := Some 1, endDate := Some 40\<rparr>"
  let ?m = "demo_milestone\<lparr>ms_rewards := \<lparr>points = 0, certificate = False\<rparr>\<rparr>"
  let ?a = "\<lparr>act_id = 4, act_relationship = 0, act_createdBy = 1, act_title = ''Picnic'',
             act_type = ''date'', act_trustChange = 0, act_relationshipStrength = 0,
             reactions = [], comments = []\<rparr>"
  let ?tb = "\<lparr>ct_relationshipId = 0, ct_title = ''Weekly call'', ct_description = ''Every week'',
         ct_category = ''communication'', ct_priority = None, ct_rest_valid = True\<rparr>"
  have s: "\<forall>n. (\<lambda>n::notification. True) n" by simp
  note inst = dependent_mutations_ignore_status [OF demo_ended_facts(1) s,
      where t = demo_term and tid = 3 and mid = 1 and m = "?m" and aid = 4 and a = "?a"
        and now = 50 and fullName = "''Bob B''" and sig = None and random = "''abcde''"
        and tb = "?tb"]
  note member = inst [where me = 2 and comment_text = "CHR 0x0B # ''Lovely ''"]
  note outsider = inst [where me = 7 and comment_text = "''Lovely''"]
  have p: "initiator ?r = 2 \<or> partner ?r = 2" "initiator ?r \<noteq> 7" "partner ?r \<noteq> 7"
    "rel_status ?r \<noteq> Active"
    by (simp_all add: demo_active_def new_relationship_def)
  have a: "term_relationship demo_term = 0" "2 \<notin> set (map ag_user (agreedBy demo_term))"
    "agreedBy demo_term = []"
    by (simp_all add: demo_term_def)
  have m: "ms_relationship ?m = 0" "ms_status ?m \<noteq> Completed" "\<not> certificate (ms_rewards ?m)"
    by (simp_all add: demo_milestone_def)
  have t: "trim (CHR 0x0B # ''Lovely '') = ''Lovely''" "trim ''Lovely'' = ''Lovely''"
    by (simp_all add: trim_def is_space_def)
  have c: "createTermValidation ?tb"
    by (simp add: createTermValidation_def valid_title_def trim_def is_space_def term_categories_def)
  have w1: "agreeTerm (\<lambda>n. True) 50 2 ''Bob B'' None 3 demo_ended_db
      = ((200, ''Term agreement recorded successfully''),
         demo_ended_db
           \<lparr>termDocs :=
              map (\<lambda>x. if term_id x = 3
                        then demo_term\<lparr>agreedBy := [\<lparr>ag_user = 2, agreedAt = 50, signature = ''Bob B''\<rparr>]\<rparr>
                        else x) (termDocs demo_ended_db),
            notifications := notifications demo_ended_db @
              [\<lparr>recipient = 1, sender = 2, n_type = ''term_agreed'', n_category = ''relationship'',
                actionRequired = False, actions = [],
                metadata = [(''termId'', 3), (''relationshipId'', 0)]\<rparr>]\<rparr>)"
    using member [THEN conjunct1] demo_ended_facts(2) p(1) a
    by (simp add: signature_of_def demo_active_def new_relationship_def)
  have w2: "completeMilestone (\<lambda>n. True) 50 ''abcde'' 2 1 demo_ended_db
      = ((200, ''Milestone completed successfully''),
         demo_ended_db
           \<lparr>milestones :=
              map (\<lambda>x. if ms_id x = 1
                        then ?m\<lparr>ms_status := Completed, completedDate := Some 50,
                                participants := [\<lparr>p_user = 2, p_completedAt = 50\<rparr>]\<rparr>
                        else x) (milestones demo_ended_db),
            relationships :=
              map (\<lambda>x. if rel_id x = 0
                        then x\<lparr>stats := (stats x)\<lparr>milestonesAchieved := milestonesAchieved (stats x) + 1\<rparr>\<rparr>
                        else x) (relationships demo_ended_db),
            notifications := notifications demo_ended_db @
              [\<lparr>recipient = 1, sender = 2, n_type = ''milestone_achieved'', n_category = ''milestone'',
                actionRequired = False, actions = [],
                metadata = [(''milestoneId'', 1), (''relationshipId'', 0)]\<rparr>]\<rparr>)"
    using member [THEN conjunct2, THEN conjunct2, THEN conjunct1] demo_ended_facts(3) p(1) m
    by (simp add: demo_active_def new_relationship_def demo_milestone_def)
  have w3: "addComment 2 (Some (CHR 0x0B # ''Lovely '')) 4 demo_ended_db
      = ((200, ''Comment added successfully''),
         demo_ended_db
           \<lparr>activities :=
              map (\<lambda>x. if act_id x = 4 then ?a\<lparr>comments := [\<lparr>co_user = 2, co_text = ''Lovely''\<rparr>]\<rparr> else x)
                (activities demo_ended_db)\<rparr>)"
    using member [THEN conjunct2, THEN conjunct2, THEN conjunct2, THEN conjunct2, THEN conjunct2,
        THEN conjunct1] demo_ended_facts(4) p(1) t(1)
    by (simp add: demo_active_def new_relationship_def cong: if_cong)
  have w4: "addComment 7 (Some ''Lovely'') 4 demo_ended_db = ((403, ''Access denied''), demo_ended_db)"
    using outsider [THEN conjunct2, THEN conjunct2, THEN conjunct2, THEN conjunct2, THEN conjunct2,
        THEN conjunct2, THEN conjunct2, THEN conjunct2, THEN conjunct1] demo_ended_facts(4) p(2,3) t(2)
    by simp
  have w5: "createTerm (\<lambda>n. True) 2 ?tb demo_ended_db
       = ((400, ''Can only create terms for active relationships''), demo_ended_db)"
    using member [THEN conjunct2, THEN conjunct2, THEN conjunct2, THEN conjunct2, THEN conjunct2,
        THEN conjunct2, THEN conjunct2, THEN conjunct2, THEN conjunct2, THEN conjunct1] p(1,4) c
    by (simp add: demo_active_def new_relationship_def)
  have r1: "map_option agreedBy
        (findById term_id 3 (termDocs (snd (agreeTerm (\<lambda>n. True) 50 2 ''Bob B'' None 3 demo_ended_db))))
       = Some [\<lparr>ag_user = 2, agreedAt = 50, signature = ''Bob B''\<rparr>]"
    unfolding w1 by (simp add: demo_ended_db_def empty_db_def findById_def demo_term_def)
  have r2: "map_option ms_status
        (findById ms_id 1 (milestones (snd (completeMilestone (\<lambda>n. True) 50 ''abcde'' 2 1 demo_ended_db))))
       = Some Completed"
    unfolding w2 by (simp add: demo_ended_db_def empty_db_def findById_def demo_milestone_def)
  have r3: "map_option (\<lambda>x. milestonesAchieved (stats x))
        (findById rel_id 0
           (relationships (snd (completeMilestone (\<lambda>n. True) 50 ''abcde'' 2 1 demo_ended_db))))
       = Some 1"
    unfolding w2
    by (simp add: demo_ended_db_def empty_db_def findById_def demo_active_def new_relationship_def)
  have r4: "map_option comments
        (findById act_id 4 (activities (snd (addComment 2 (Some (CHR 0x0B # ''Lovely '')) 4 demo_ended_db))))
       = Some [\<lparr>co_user = 2, co_text = ''Lovely''\<rparr>]"
    unfolding w3 by (simp add: demo_ended_db_def empty_db_def findById_def)
  have r0: "map_option rel_status (findById rel_id 0 (relationships demo_ended_db)) = Some Ended"
    using demo_ended_facts(1) by simp
  show ?thesis
    unfolding r0 r1 r2 r3 r4 w4 w5 unfolding w1 w2 w3 by simp
qed

end
